theory Spec2Isabelle
  imports Main
begin

section \<open>The FSH tank: documents, entities and fishing\<close>

subsection \<open>Data model\<close>

text \<open>The kinds a caller can fish for (the enum \<open>Type\<close> of utils/Fishable).\<close>

datatype Type =
    Type_Profile | Type_Extension | Type_ValueSet | Type_CodeSystem | Type_Instance
  | Type_Invariant | Type_RuleSet | Type_Mapping | Type_Resource | Type_Type | Type_Logical

record FshCode =
  code :: string
  system :: "string option"
  display :: "string option"

text \<open>The value of an assignment rule: the checks of \<open>fish\<close> tell a \<open>FshCode\<close> from a
  plain string; every other value class is \<open>ValOther\<close>.\<close>

datatype AssignmentValueType =
    ValBoolean bool | ValNumber int | ValString string | ValFshCode FshCode | ValOther

text \<open>One requested type of an \<open>OnlyRule\<close>, as the tests write it:
  \<open>{ type: 'Practitioner', isReference: true }\<close>; an absent flag is false. A version
  is written into the type after a bar, \<open>'Questionnaire|4.0.1'\<close>.\<close>

record OnlyRuleType =
  typeName :: string
  isReference :: bool
  isCanonical :: bool

text \<open>Rules. Instances carry assignment and insert rules; structures also carry
  \<open>OnlyRule\<close>s, add-element rules and the rules of the other classes (cardinality, flag,
  caret value and so on), which are \<open>OtherRule\<close> here.\<close>

datatype Rule =
    AssignmentRule (path: string) (val: AssignmentValueType)
  | InsertRule (path: string) (ruleSet: string)
  | OnlyRule (path: string) (types': "OnlyRuleType list")
  | AddElementRule (path: string)
  | OtherRule (path: string)

datatype InstanceUsage = Example | Definition | Inline

text \<open>Entities. Every class has a \<open>name\<close>; all but invariants and rule sets carry an
  \<open>id\<close> of their own (field \<open>id'\<close>); structures, value sets, code systems and instances
  carry rules.\<close>

record Named =
  name :: string

record Identified = Named +
  id' :: string

record RuleBearing = Identified +
  rules :: "Rule list"

record FshStructure = RuleBearing +
  parent :: "string option"

type_synonym Profile = FshStructure
type_synonym Extension = FshStructure
type_synonym Logical = FshStructure
type_synonym Resource = FshStructure
type_synonym FshValueSet = RuleBearing
type_synonym FshCodeSystem = RuleBearing
type_synonym Invariant = Named
type_synonym RuleSet = Named
type_synonym Mapping = Identified

record Instance = RuleBearing +
  title :: "string option"
  instanceOf :: "string option"
  description :: "string option"
  usage :: "InstanceUsage option"
  mixins :: "string list option"

text \<open>The constructor of \<open>Instance\<close> (fshtypes/Instance.ts): \<open>id\<close> starts as the name,
  \<open>mixins\<close> and \<open>rules\<close> empty, \<open>usage\<close> is \<open>Example\<close>; the other fields are not
  assigned.\<close>

definition new_Instance :: "string \<Rightarrow> Instance" where
  "new_Instance nm =
     \<lparr> name = nm, id' = nm, rules = [], title = None, instanceOf = None,
       description = None, usage = Some Example, mixins = Some [] \<rparr>"

text \<open>The getter \<open>id\<close> of an invariant returns its name.\<close>

definition Invariant_id :: "Invariant \<Rightarrow> string" where
  "Invariant_id i = name i"

record Configuration =
  canonical :: string

text \<open>A JavaScript \<open>Map\<close> is kept as an association list in insertion order:
  \<open>get\<close> is \<open>map_of\<close>, \<open>values()\<close> is \<open>map snd\<close>.\<close>

record FSHDocument =
  file' :: string
  aliases :: "(string \<times> string) list"
  profiles :: "(string \<times> Profile) list"
  extensions :: "(string \<times> Extension) list"
  logicals :: "(string \<times> Logical) list"
  resources :: "(string \<times> Resource) list"
  instances :: "(string \<times> Instance) list"
  valueSets :: "(string \<times> FshValueSet) list"
  codeSystems :: "(string \<times> FshCodeSystem) list"
  invariants :: "(string \<times> Invariant) list"
  ruleSets :: "(string \<times> RuleSet) list"
  mappings :: "(string \<times> Mapping) list"

record FSHTank =
  docs :: "FSHDocument list"
  config :: Configuration

text \<open>What \<open>fish\<close> returns: one of the entity classes, told apart as \<open>instanceof\<close> does.\<close>

datatype FishResult =
    R_Profile Profile | R_Extension Extension | R_Logical Logical | R_Resource Resource
  | R_ValueSet FshValueSet | R_CodeSystem FshCodeSystem | R_Instance Instance
  | R_Invariant Invariant | R_RuleSet RuleSet | R_Mapping Mapping

subsection \<open>Accessors of the tank\<close>

definition flatMap :: "'a list \<Rightarrow> ('a \<Rightarrow> 'b list) \<Rightarrow> 'b list" where
  "flatMap xs f = concat (map f xs)"

definition getAllProfiles :: "FSHTank \<Rightarrow> Profile list" where
  "getAllProfiles tank = flatMap (docs tank) (\<lambda>doc. map snd (profiles doc))"

definition getAllExtensions :: "FSHTank \<Rightarrow> Extension list" where
  "getAllExtensions tank = flatMap (docs tank) (\<lambda>doc. map snd (extensions doc))"

definition getAllLogicals :: "FSHTank \<Rightarrow> Logical list" where
  "getAllLogicals tank = flatMap (docs tank) (\<lambda>doc. map snd (logicals doc))"

definition getAllResources :: "FSHTank \<Rightarrow> Resource list" where
  "getAllResources tank = flatMap (docs tank) (\<lambda>doc. map snd (resources doc))"

definition getAllInstances :: "FSHTank \<Rightarrow> Instance list" where
  "getAllInstances tank = flatMap (docs tank) (\<lambda>doc. map snd (instances doc))"

definition getAllValueSets :: "FSHTank \<Rightarrow> FshValueSet list" where
  "getAllValueSets tank = flatMap (docs tank) (\<lambda>doc. map snd (valueSets doc))"

definition getAllCodeSystems :: "FSHTank \<Rightarrow> FshCodeSystem list" where
  "getAllCodeSystems tank = flatMap (docs tank) (\<lambda>doc. map snd (codeSystems doc))"

definition getAllInvariants :: "FSHTank \<Rightarrow> Invariant list" where
  "getAllInvariants tank = flatMap (docs tank) (\<lambda>doc. map snd (invariants doc))"

definition getAllRuleSets :: "FSHTank \<Rightarrow> RuleSet list" where
  "getAllRuleSets tank = flatMap (docs tank) (\<lambda>doc. map snd (ruleSets doc))"

definition getAllMappings :: "FSHTank \<Rightarrow> Mapping list" where
  "getAllMappings tank = flatMap (docs tank) (\<lambda>doc. map snd (mappings doc))"

subsection \<open>Alias resolution\<close>

text \<open>\<open>resolveAlias\<close>: the loop over the documents returns the first alias that is
  found and truthy (a non-empty string); \<open>None\<close> is JavaScript's \<open>undefined\<close>.\<close>

fun resolveAlias_docs :: "FSHDocument list \<Rightarrow> string \<Rightarrow> string option" where
  "resolveAlias_docs [] nm = None"
| "resolveAlias_docs (doc # ds) nm =
     (case map_of (aliases doc) nm of
        Some foundAlias \<Rightarrow> if foundAlias \<noteq> [] then Some foundAlias else resolveAlias_docs ds nm
      | None \<Rightarrow> resolveAlias_docs ds nm)"

definition resolveAlias :: "FSHTank \<Rightarrow> string \<Rightarrow> string option" where
  "resolveAlias tank nm = resolveAlias_docs (docs tank) nm"

subsection \<open>Fishing\<close>

text \<open>Modelled from the spec: \<open>getUrlFromFshDefinition\<close> (fhirtypes/common) is not among
  the sources. The spec gives the canonical URL of an entity as the configured base url
  plus the entity's id.\<close>

definition getUrlFromFshDefinition :: "'a Identified_scheme \<Rightarrow> string \<Rightarrow> string" where
  "getUrlFromFshDefinition fshDefinition canonicalBase = canonicalBase @ id' fshDefinition"

text \<open>The tests on the rules of a definitional instance, one per arrow function handed
  to \<open>rules.some\<close>.\<close>

fun isCodeAssignment :: "string \<Rightarrow> string \<Rightarrow> Rule \<Rightarrow> bool" where
  "isCodeAssignment p c (AssignmentRule rp (ValFshCode v)) = (rp = p \<and> code v = c)"
| "isCodeAssignment p c r = False"

fun isStringAssignment :: "string \<Rightarrow> string \<Rightarrow> Rule \<Rightarrow> bool" where
  "isStringAssignment p s (AssignmentRule rp (ValString v)) = (rp = p \<and> v = s)"
| "isStringAssignment p s r = False"

definition some :: "'a list \<Rightarrow> ('a \<Rightarrow> bool) \<Rightarrow> bool" where
  "some xs P = list_ex P xs"

text \<open>Name, id or canonical URL: the test shared by the six kinds that have a url.\<close>

definition matchesNameIdUrl :: "FSHTank \<Rightarrow> string \<Rightarrow> 'a Identified_scheme \<Rightarrow> bool" where
  "matchesNameIdUrl tank item d =
     (name d = item \<or> id' d = item
      \<or> getUrlFromFshDefinition d (canonical (config tank)) = item)"

definition isProfileInstance :: "FSHTank \<Rightarrow> string \<Rightarrow> Instance \<Rightarrow> bool" where
  "isProfileInstance tank item profileInstance =
     (instanceOf profileInstance = Some ''StructureDefinition''
      \<and> usage profileInstance = Some Definition
      \<and> matchesNameIdUrl tank item profileInstance
      \<and> some (rules profileInstance) (isCodeAssignment ''derivation'' ''constraint'')
      \<and> \<not> some (rules profileInstance) (isStringAssignment ''type'' ''Extension''))"

definition isExtensionInstance :: "FSHTank \<Rightarrow> string \<Rightarrow> Instance \<Rightarrow> bool" where
  "isExtensionInstance tank item extensionInstance =
     (instanceOf extensionInstance = Some ''StructureDefinition''
      \<and> usage extensionInstance = Some Definition
      \<and> matchesNameIdUrl tank item extensionInstance
      \<and> some (rules extensionInstance) (isCodeAssignment ''derivation'' ''constraint'')
      \<and> some (rules extensionInstance) (isStringAssignment ''type'' ''Extension''))"

definition isLogicalInstance :: "FSHTank \<Rightarrow> string \<Rightarrow> Instance \<Rightarrow> bool" where
  "isLogicalInstance tank item logicalInstance =
     (instanceOf logicalInstance = Some ''StructureDefinition''
      \<and> usage logicalInstance = Some Definition
      \<and> matchesNameIdUrl tank item logicalInstance
      \<and> some (rules logicalInstance) (isCodeAssignment ''derivation'' ''specialization'')
      \<and> some (rules logicalInstance) (isCodeAssignment ''kind'' ''logical''))"

definition isResourceInstance :: "FSHTank \<Rightarrow> string \<Rightarrow> Instance \<Rightarrow> bool" where
  "isResourceInstance tank item resourceInstance =
     (instanceOf resourceInstance = Some ''StructureDefinition''
      \<and> usage resourceInstance = Some Definition
      \<and> matchesNameIdUrl tank item resourceInstance
      \<and> some (rules resourceInstance) (isCodeAssignment ''derivation'' ''specialization'')
      \<and> some (rules resourceInstance) (isCodeAssignment ''kind'' ''resource''))"

definition isValueSetInstance :: "FSHTank \<Rightarrow> string \<Rightarrow> Instance \<Rightarrow> bool" where
  "isValueSetInstance tank item vsInstance =
     (instanceOf vsInstance = Some ''ValueSet''
      \<and> usage vsInstance = Some Definition
      \<and> matchesNameIdUrl tank item vsInstance)"

definition isCodeSystemInstance :: "FSHTank \<Rightarrow> string \<Rightarrow> Instance \<Rightarrow> bool" where
  "isCodeSystemInstance tank item csInstance =
     (instanceOf csInstance = Some ''CodeSystem''
      \<and> usage csInstance = Some Definition
      \<and> matchesNameIdUrl tank item csInstance)"

text \<open>\<open>direct orElse fallback\<close>: the \<open>if (!result)\<close> after the first \<open>find\<close>.\<close>

definition orElse :: "'a option \<Rightarrow> 'a option \<Rightarrow> 'a option" where
  "orElse r fallback = (case r of Some x \<Rightarrow> Some x | None \<Rightarrow> fallback)"

text \<open>One pass of the \<open>switch\<close> in \<open>fish\<close>, for the kind \<open>t\<close> and the item after alias
  resolution.\<close>

fun fishType :: "FSHTank \<Rightarrow> string \<Rightarrow> Type \<Rightarrow> FishResult option" where
  "fishType tank item Type_Profile =
     orElse (map_option R_Profile (find (matchesNameIdUrl tank item) (getAllProfiles tank)))
            (map_option R_Instance (find (isProfileInstance tank item) (getAllInstances tank)))"
| "fishType tank item Type_Extension =
     orElse (map_option R_Extension (find (matchesNameIdUrl tank item) (getAllExtensions tank)))
            (map_option R_Instance (find (isExtensionInstance tank item) (getAllInstances tank)))"
| "fishType tank item Type_Logical =
     orElse (map_option R_Logical (find (matchesNameIdUrl tank item) (getAllLogicals tank)))
            (map_option R_Instance (find (isLogicalInstance tank item) (getAllInstances tank)))"
| "fishType tank item Type_Resource =
     orElse (map_option R_Resource (find (matchesNameIdUrl tank item) (getAllResources tank)))
            (map_option R_Instance (find (isResourceInstance tank item) (getAllInstances tank)))"
| "fishType tank item Type_ValueSet =
     orElse (map_option R_ValueSet (find (matchesNameIdUrl tank item) (getAllValueSets tank)))
            (map_option R_Instance (find (isValueSetInstance tank item) (getAllInstances tank)))"
| "fishType tank item Type_CodeSystem =
     orElse (map_option R_CodeSystem (find (matchesNameIdUrl tank item) (getAllCodeSystems tank)))
            (map_option R_Instance (find (isCodeSystemInstance tank item) (getAllInstances tank)))"
| "fishType tank item Type_Instance =
     map_option R_Instance (find (\<lambda>i. name i = item \<or> id' i = item) (getAllInstances tank))"
| "fishType tank item Type_Invariant =
     map_option R_Invariant (find (\<lambda>i. name i = item) (getAllInvariants tank))"
| "fishType tank item Type_RuleSet =
     map_option R_RuleSet (find (\<lambda>r. name r = item) (getAllRuleSets tank))"
| "fishType tank item Type_Mapping =
     map_option R_Mapping (find (\<lambda>m. name m = item) (getAllMappings tank))"
| "fishType tank item Type_Type = None"

text \<open>The \<open>for\<close> loop over the kinds: the first kind with a result returns it.\<close>

fun fish_types :: "FSHTank \<Rightarrow> string \<Rightarrow> Type list \<Rightarrow> FishResult option" where
  "fish_types tank item [] = None"
| "fish_types tank item (t # ts) =
     (case fishType tank item t of
        Some result \<Rightarrow> Some result
      | None \<Rightarrow> fish_types tank item ts)"

definition allTypes :: "Type list" where
  "allTypes = [Type_Profile, Type_Extension, Type_Logical, Type_Resource, Type_ValueSet,
               Type_CodeSystem, Type_Instance, Type_Invariant, Type_RuleSet, Type_Mapping]"

text \<open>\<open>item = this.resolveAlias(item) ?? item\<close>.\<close>

definition aliasResolved :: "FSHTank \<Rightarrow> string \<Rightarrow> string" where
  "aliasResolved tank item = (case resolveAlias tank item of Some a \<Rightarrow> a | None \<Rightarrow> item)"

definition fish :: "FSHTank \<Rightarrow> string \<Rightarrow> Type list \<Rightarrow> FishResult option" where
  "fish tank item types =
     fish_types tank (aliasResolved tank item) (if types = [] then allTypes else types)"


subsection \<open>Example tanks\<close>

definition emptyDoc :: FSHDocument where
  "emptyDoc = \<lparr> file' = ''a.fsh'', aliases = [], profiles = [], extensions = [], logicals = [],
      resources = [], instances = [], valueSets = [], codeSystems = [], invariants = [],
      ruleSets = [], mappings = [] \<rparr>"

definition minimalConfig :: Configuration where
  "minimalConfig = \<lparr> canonical = ''http://example.org/'' \<rparr>"

definition doc_alias1 :: FSHDocument where
  "doc_alias1 = emptyDoc \<lparr> aliases := [(''LNC'', ''http://loinc.org'')] \<rparr>"

definition doc_alias2 :: FSHDocument where
  "doc_alias2 = emptyDoc \<lparr> aliases :=
     [(''SCT'', ''http://snomed.info/sct''), (''LNC'', ''http://other.org'')] \<rparr>"

definition tank_alias :: FSHTank where
  "tank_alias = \<lparr> docs = [emptyDoc, doc_alias1, doc_alias2], config = minimalConfig \<rparr>"

definition tank_empty :: FSHTank where
  "tank_empty = \<lparr> docs = [emptyDoc], config = minimalConfig \<rparr>"

definition constraintCode :: FshCode where
  "constraintCode = \<lparr> code = ''constraint'', system = None, display = None \<rparr>"

definition profileFoo :: Profile where
  "profileFoo = \<lparr> name = ''Foo'', id' = ''foo-profile'', rules = [], parent = Some ''Observation'' \<rparr>"





definition instanceExample :: Instance where
  "instanceExample = (new_Instance ''PatientExample'')
     \<lparr> id' := ''patient-example'', instanceOf := Some ''Patient'' \<rparr>"

definition mappingExample :: Mapping where
  "mappingExample = \<lparr> name = ''MyMapping'', id' = ''my-mapping'' \<rparr>"

definition tank_instance_mapping :: FSHTank where
  "tank_instance_mapping =
     \<lparr> docs = [emptyDoc \<lparr> instances := [(''PatientExample'', instanceExample)],
                           mappings := [(''MyMapping'', mappingExample)] \<rparr>],
       config = minimalConfig \<rparr>"

definition tank_profile :: FSHTank where
  "tank_profile =
     \<lparr> docs = [emptyDoc, emptyDoc \<lparr> profiles := [(''Foo'', profileFoo)] \<rparr>],
       config = minimalConfig \<rparr>"

definition resourceInstance :: Instance where
  "resourceInstance = (new_Instance ''MyResource'')
     \<lparr> rules := [AssignmentRule ''derivation''
                   (ValFshCode \<lparr> code = ''specialization'', system = None, display = None \<rparr>),
                 AssignmentRule ''kind''
                   (ValFshCode \<lparr> code = ''resource'', system = None, display = None \<rparr>)],
       instanceOf := Some ''StructureDefinition'', usage := Some Definition \<rparr>"

definition tank_resourceInstance :: FSHTank where
  "tank_resourceInstance =
     \<lparr> docs = [emptyDoc \<lparr> instances := [(''MyResource'', resourceInstance)] \<rparr>],
       config = minimalConfig \<rparr>"

definition instanceNotDefinition :: Instance where
  "instanceNotDefinition = (new_Instance ''Foo'')
     \<lparr> rules := [AssignmentRule ''derivation'' (ValFshCode constraintCode)],
       instanceOf := Some ''StructureDefinition'' \<rparr>"

definition tank_instanceNotDefinition :: FSHTank where
  "tank_instanceNotDefinition =
     \<lparr> docs = [emptyDoc \<lparr> instances := [(''Foo'', instanceNotDefinition)] \<rparr>],
       config = minimalConfig \<rparr>"

section \<open>The type constraint resolver\<close>

text \<open>Modelled from the spec: \<open>ElementDefinition.constrainType\<close> and the classes it works on
  are not among the sources (only its tests are). The definitions of this section follow the
  spec's description of the type constraint resolver, step by step; where the spec is silent
  on the shape of a narrowed slot, they follow the tests.\<close>

subsection \<open>Slots, requests and the oracle\<close>

text \<open>Modelled from the spec: the record the type hierarchy oracle returns for an
  identifier: code, canonical url, parent url, abstractness and structural kind.\<close>

record TypeRecord =
  typeCode :: string
  typeUrl :: string
  parentUrl :: "string option"
  isAbstract :: bool
  typeKind :: string

text \<open>Modelled from the spec: the oracle, \<open>resolve(identifier)\<close> giving a record or
  absence. \<open>maxDepth\<close> bounds the parent chains that are followed, so that a cyclic
  hierarchy cannot make the resolver loop.\<close>

record TypeOracle =
  resolve :: "string \<Rightarrow> TypeRecord option"
  maxDepth :: nat

text \<open>Modelled from the spec: one slot of an element's type list: a code and, optionally,
  profile urls (value types) or target urls (reference and canonical types).\<close>

record ElementDefinitionType =
  code' :: string
  profile :: "string list option"
  targetProfile :: "string list option"

text \<open>Modelled from the spec: an element, as far as the resolver reads and writes it: its path and
  its type list.\<close>

record ElementDefinition =
  elemPath :: string
  type' :: "ElementDefinitionType list"

text \<open>Modelled from the spec: the four failures of the resolver, each with the identifier it reports.\<close>

datatype ConstrainError =
    TypeNotFound string
  | InvalidType string
  | InvalidTarget string
  | NonAbstractParent string string

text \<open>Modelled from the spec: the shapes of slots and requests: value, reference, canonical, and the
  \<open>CodeableReference\<close> slot that holds a code or a reference.\<close>

datatype Shape = ValueShape | ReferenceShape | CanonicalShape | CodeableReferenceShape

text \<open>Modelled from the spec: the shape of a slot is read off its code.\<close>

definition slotShape :: "ElementDefinitionType \<Rightarrow> Shape" where
  "slotShape t =
     (if code' t = ''Reference'' then ReferenceShape
      else if code' t = ''canonical'' then CanonicalShape
      else if code' t = ''CodeableReference'' then CodeableReferenceShape
      else ValueShape)"

text \<open>Modelled from the spec: the shape of a request is read off its flags.\<close>

definition requestShape :: "OnlyRuleType \<Rightarrow> Shape" where
  "requestShape q =
     (if isReference q then ReferenceShape
      else if isCanonical q then CanonicalShape
      else ValueShape)"

text \<open>Modelled from the spec: a slot and a request of the same shape.\<close>

definition exactShape :: "ElementDefinitionType \<Rightarrow> OnlyRuleType \<Rightarrow> bool" where
  "exactShape t q = (slotShape t = requestShape q)"

text \<open>Modelled from the spec: a request flagged as a reference is also compatible, in part, with a
  \<open>CodeableReference\<close> slot.\<close>

definition partialShape :: "ElementDefinitionType \<Rightarrow> OnlyRuleType \<Rightarrow> bool" where
  "partialShape t q = (slotShape t = CodeableReferenceShape \<and> requestShape q = ReferenceShape)"

text \<open>Modelled from the spec: the identifier of a request without its version, and the version suffix (with its
  bar) that is put back on the url.\<close>

definition unversioned :: "string \<Rightarrow> string" where
  "unversioned s = takeWhile (\<lambda>c. c \<noteq> CHR ''|'') s"

text \<open>Modelled from the spec: the version of a request, with its bar, as it is put on the url.\<close>

definition versionSuffix :: "string \<Rightarrow> string" where
  "versionSuffix s = dropWhile (\<lambda>c. c \<noteq> CHR ''|'') s"

subsection \<open>Ancestors\<close>

text \<open>Modelled from the spec: the requested type followed by its parents, as far as the oracle knows them.\<close>

fun lineage :: "TypeOracle \<Rightarrow> nat \<Rightarrow> TypeRecord \<Rightarrow> TypeRecord list" where
  "lineage oracle 0 r = [r]"
| "lineage oracle (Suc n) r =
     r # (case parentUrl r of
            None \<Rightarrow> []
          | Some p \<Rightarrow> (case resolve oracle p of
                         None \<Rightarrow> []
                       | Some parentRecord \<Rightarrow> lineage oracle n parentRecord))"

text \<open>Modelled from the spec: a profile constrains its parent and keeps the parent's code; a specialization
  introduces a code of its own.\<close>

definition isProfile :: "TypeOracle \<Rightarrow> TypeRecord \<Rightarrow> bool" where
  "isProfile oracle r =
     (case parentUrl r of
        None \<Rightarrow> False
      | Some p \<Rightarrow> (case resolve oracle p of
                     None \<Rightarrow> False
                   | Some parentRecord \<Rightarrow> typeCode parentRecord = typeCode r))"

text \<open>Modelled from the spec: the three ways a slot can be an ancestor of a requested type.\<close>

datatype MatchKind = Identical | ProfileOf | SpecializationOf

text \<open>Modelled from the spec: how a requested type relates to the code of a value slot: identical code, a profile
  of the code, or a specialization of it.\<close>

definition valueMatch :: "TypeOracle \<Rightarrow> TypeRecord \<Rightarrow> string \<Rightarrow> MatchKind option" where
  "valueMatch oracle r c =
     (if typeCode r = c then Some (if isProfile oracle r then ProfileOf else Identical)
      else if c \<in> set (map typeCode (lineage oracle (maxDepth oracle) r))
      then Some SpecializationOf
      else None)"

text \<open>Modelled from the spec: how a requested type relates to the allowed targets of a reference or canonical slot:
  the nearest ancestor (the type itself first) whose url is allowed decides, and is returned
  with the kind.\<close>

definition targetMatch :: "TypeOracle \<Rightarrow> TypeRecord \<Rightarrow> string list \<Rightarrow> (MatchKind \<times> string) option" where
  "targetMatch oracle r allowed =
     (case find (\<lambda>a. typeUrl a \<in> set allowed) (lineage oracle (maxDepth oracle) r) of
        None \<Rightarrow> None
      | Some a \<Rightarrow> Some (if typeUrl a = typeUrl r then Identical
                        else if typeCode a = typeCode r then ProfileOf
                        else SpecializationOf, typeUrl a))"

text \<open>Modelled from the spec: the match of a request with one slot: its kind and the identifier of the matched
  ancestor, which is the slot's code or the matched target. A reference or canonical slot
  without a target list allows everything.\<close>

definition slotMatch :: "TypeOracle \<Rightarrow> TypeRecord \<Rightarrow> ElementDefinitionType \<Rightarrow> (MatchKind \<times> string) option" where
  "slotMatch oracle r t =
     (if slotShape t = ValueShape
      then map_option (\<lambda>k. (k, code' t)) (valueMatch oracle r (code' t))
      else (case targetProfile t of
              None \<Rightarrow> Some (Identical, typeUrl r)
            | Some allowed \<Rightarrow> targetMatch oracle r allowed))"

text \<open>Modelled from the spec: step 5: whether the oracle declares a type abstract.\<close>

definition declaredAbstract :: "TypeOracle \<Rightarrow> string \<Rightarrow> bool" where
  "declaredAbstract oracle identifier =
     (case resolve oracle identifier of None \<Rightarrow> False | Some r \<Rightarrow> isAbstract r)"

subsection \<open>Matching a request with a slot\<close>

text \<open>Modelled from the spec: the slots with their positions in the original order.\<close>

definition indexed :: "'a list \<Rightarrow> (nat \<times> 'a) list" where
  "indexed xs = zip [0..<length xs] xs"

text \<open>Modelled from the spec: the first slot, in the original order, whose shape is the request's and which is an
  ancestor of the requested type; failing that, the first slot of a partly compatible shape.\<close>

definition findTypeMatch ::
  "TypeOracle \<Rightarrow> ElementDefinitionType list \<Rightarrow> OnlyRuleType \<Rightarrow> TypeRecord
     \<Rightarrow> (nat \<times> MatchKind \<times> string) option" where
  "findTypeMatch oracle slots q r =
     (case find (\<lambda>(i, t). exactShape t q \<and> slotMatch oracle r t \<noteq> None) (indexed slots) of
        Some (i, t) \<Rightarrow> map_option (Pair i) (slotMatch oracle r t)
      | None \<Rightarrow>
          (case find (\<lambda>(i, t). partialShape t q \<and> slotMatch oracle r t \<noteq> None) (indexed slots) of
             Some (i, t) \<Rightarrow> map_option (Pair i) (slotMatch oracle r t)
           | None \<Rightarrow> None))"

text \<open>Modelled from the spec: step 1: every requested identifier is resolved before anything else.\<close>

fun resolveAll :: "TypeOracle \<Rightarrow> OnlyRuleType list \<Rightarrow> ConstrainError + (OnlyRuleType \<times> TypeRecord) list" where
  "resolveAll oracle [] = Inr []"
| "resolveAll oracle (q # qs) =
     (case resolve oracle (unversioned (typeName q)) of
        None \<Rightarrow> Inl (TypeNotFound (typeName q))
      | Some r \<Rightarrow> (case resolveAll oracle qs of
                     Inl e \<Rightarrow> Inl e
                   | Inr rs \<Rightarrow> Inr ((q, r) # rs)))"

subsection \<open>Narrowed slots\<close>

text \<open>Modelled from the spec: the narrowed slots are collected in the order in which their first request is
  processed, each with the index of the original slot it comes from.\<close>

type_synonym Narrowed = "(nat \<times> ElementDefinitionType) list"

text \<open>Modelled from the spec: adding urls to an optional list; no urls and no list stay no list.\<close>

definition appendOpt :: "string list option \<Rightarrow> string list \<Rightarrow> string list option" where
  "appendOpt xs ys =
     (case xs of None \<Rightarrow> (if ys = [] then None else Some ys) | Some zs \<Rightarrow> Some (zs @ ys))"

text \<open>Modelled from the spec: a request matched with a value slot: an identical match keeps the slot; a profile or
  a specialization gives a slot with the code of the requested type, to which the profiles
  requested for that code accumulate.\<close>

fun addValue :: "Narrowed \<Rightarrow> nat \<Rightarrow> string \<Rightarrow> string list \<Rightarrow> Narrowed" where
  "addValue [] i c urls = [(i, \<lparr> code' = c, profile = appendOpt None urls, targetProfile = None \<rparr>)]"
| "addValue ((j, t) # rest) i c urls =
     (if j = i \<and> code' t = c then (j, t \<lparr> profile := appendOpt (profile t) urls \<rparr>) # rest
      else (j, t) # addValue rest i c urls)"

text \<open>Modelled from the spec: a request matched with a reference or canonical slot: the requested targets of one
  slot accumulate, in request order, into its new target list.\<close>

fun addTarget :: "Narrowed \<Rightarrow> nat \<Rightarrow> ElementDefinitionType \<Rightarrow> string \<Rightarrow> Narrowed" where
  "addTarget [] i t url = [(i, t \<lparr> targetProfile := Some [url] \<rparr>)]"
| "addTarget ((j, t') # rest) i t url =
     (if j = i then (j, t' \<lparr> targetProfile := appendOpt (targetProfile t') [url] \<rparr>) # rest
      else (j, t') # addTarget rest i t url)"

text \<open>Modelled from the spec: one processed request joins the narrowed slots; an identical match
  with a value slot that is not yet there keeps the slot as it is.\<close>

definition addNarrowed ::
  "TypeOracle \<Rightarrow> Narrowed \<Rightarrow> nat \<Rightarrow> ElementDefinitionType \<Rightarrow> MatchKind \<Rightarrow> OnlyRuleType
     \<Rightarrow> TypeRecord \<Rightarrow> Narrowed" where
  "addNarrowed oracle acc i t k q r =
     (if slotShape t = ValueShape then
        (if k = Identical \<and> (\<forall>(j, t') \<in> set acc. \<not> (j = i \<and> code' t' = code' t))
         then acc @ [(i, t)]
         else addValue acc i (typeCode r)
                (if isProfile oracle r then [typeUrl r @ versionSuffix (typeName q)] else []))
      else addTarget acc i t (typeUrl r @ versionSuffix (typeName q)))"

text \<open>Modelled from the spec: steps 4 to 6: every request is matched in turn; a request that matches no slot fails
  with \<open>InvalidType\<close>, a specialization of an ancestor that the oracle does not declare
  abstract with \<open>NonAbstractParent\<close>.\<close>

fun narrowAll ::
  "TypeOracle \<Rightarrow> ElementDefinitionType list \<Rightarrow> (OnlyRuleType \<times> TypeRecord) list \<Rightarrow> Narrowed
     \<Rightarrow> ConstrainError + Narrowed" where
  "narrowAll oracle slots [] acc = Inr acc"
| "narrowAll oracle slots ((q, r) # rest) acc =
     (case findTypeMatch oracle slots q r of
        None \<Rightarrow> Inl (InvalidType (typeName q))
      | Some (i, k, ancestor) \<Rightarrow>
          if k = SpecializationOf \<and> \<not> declaredAbstract oracle ancestor
          then Inl (NonAbstractParent ancestor (typeName q))
          else narrowAll oracle slots rest (addNarrowed oracle acc i (slots ! i) k q r))"

subsection \<open>The target type\<close>

text \<open>Modelled from the spec: step 3: the slot addressed by a target type is the first slot whose code (value
  slots) or one of whose targets (reference and canonical slots) is the target, and whose
  shape is compatible with every request.\<close>

definition addressedBy :: "TypeRecord \<Rightarrow> OnlyRuleType list \<Rightarrow> ElementDefinitionType \<Rightarrow> bool" where
  "addressedBy target qs t =
     ((if slotShape t = ValueShape then code' t = typeCode target
       else (case targetProfile t of None \<Rightarrow> False | Some allowed \<Rightarrow> typeUrl target \<in> set allowed))
      \<and> (\<forall>q \<in> set qs. exactShape t q \<or> partialShape t q))"

text \<open>Modelled from the spec: the position of the addressed slot, if there is one.\<close>

definition findTarget :: "TypeRecord \<Rightarrow> OnlyRuleType list \<Rightarrow> ElementDefinitionType list \<Rightarrow> nat option" where
  "findTarget target qs slots =
     map_option fst (find (\<lambda>(i, t). addressedBy target qs t) (indexed slots))"

text \<open>Modelled from the spec: with a target type the requests are matched with the addressed slot alone, and for a
  reference or canonical slot with the addressed target alone.\<close>

definition restrictToTarget :: "TypeRecord \<Rightarrow> ElementDefinitionType \<Rightarrow> ElementDefinitionType" where
  "restrictToTarget target t =
     (if slotShape t = ValueShape then t else t \<lparr> targetProfile := Some [typeUrl target] \<rparr>)"

text \<open>Modelled from the spec: the slot that takes the place of an addressed reference or canonical slot: the
  addressed target gives way to the requested ones, the other targets stay.\<close>

definition replaceTarget :: "string list \<Rightarrow> string \<Rightarrow> string list \<Rightarrow> string list" where
  "replaceTarget allowed target urls =
     concat (map (\<lambda>u. if u = target then urls else [u]) allowed)"

text \<open>Modelled from the spec: what takes the place of the addressed slot.\<close>

definition inPlace :: "TypeRecord \<Rightarrow> ElementDefinitionType \<Rightarrow> ElementDefinitionType \<Rightarrow> ElementDefinitionType" where
  "inPlace target original narrowed =
     (if slotShape original = ValueShape then narrowed
      else narrowed \<lparr> targetProfile :=
             Some (replaceTarget (case targetProfile original of None \<Rightarrow> [] | Some a \<Rightarrow> a)
                     (typeUrl target)
                     (case targetProfile narrowed of None \<Rightarrow> [] | Some a \<Rightarrow> a)) \<rparr>)"

subsection \<open>The operation\<close>

text \<open>Modelled from the spec: \<open>constrainType\<close> returns the error, if any, and the element as it is after the call.
  Without a target type the new type list is the list of narrowed slots (step 8); with one,
  the narrowed slots take the place of the addressed slot. A call with no request changes
  nothing.\<close>

definition constrainType ::
  "TypeOracle \<Rightarrow> ElementDefinition \<Rightarrow> OnlyRuleType list \<Rightarrow> string option
     \<Rightarrow> ConstrainError option \<times> ElementDefinition" where
  "constrainType oracle element qs targetType =
     (case resolveAll oracle qs of
        Inl e \<Rightarrow> (Some e, element)
      | Inr resolved \<Rightarrow>
          (case targetType of
             None \<Rightarrow>
               (case narrowAll oracle (type' element) resolved [] of
                  Inl e \<Rightarrow> (Some e, element)
                | Inr narrowed \<Rightarrow>
                    (None, if qs = [] then element
                           else element \<lparr> type' := map snd narrowed \<rparr>))
           | Some targetName \<Rightarrow>
               (case resolve oracle (unversioned targetName) of
                  None \<Rightarrow> (Some (TypeNotFound targetName), element)
                | Some target \<Rightarrow>
                    (case findTarget target qs (type' element) of
                       None \<Rightarrow> (Some (InvalidTarget targetName), element)
                     | Some i \<Rightarrow>
                         (case narrowAll oracle [restrictToTarget target (type' element ! i)]
                                 resolved [] of
                            Inl e \<Rightarrow> (Some e, element)
                          | Inr narrowed \<Rightarrow>
                              (None, if qs = [] then element
                                     else element \<lparr> type' :=
                                       take i (type' element)
                                       @ map (\<lambda>(j, t). inPlace target (type' element ! i) t) narrowed
                                       @ drop (Suc i) (type' element) \<rparr>))))))"

subsection \<open>An example hierarchy\<close>

definition hl7 :: "string \<Rightarrow> string" where
  "hl7 n = ''http://hl7.org/fhir/StructureDefinition/'' @ n"

definition baseType :: "string \<Rightarrow> string \<Rightarrow> bool \<Rightarrow> string \<Rightarrow> string \<times> TypeRecord" where
  "baseType n parentName abstract k =
     (n, \<lparr> typeCode = n, typeUrl = hl7 n,
           parentUrl = (if parentName = [] then None else Some (hl7 parentName)),
           isAbstract = abstract, typeKind = k \<rparr>)"

definition profileType :: "string \<Rightarrow> string \<Rightarrow> string \<Rightarrow> string \<times> TypeRecord" where
  "profileType n c k =
     (n, \<lparr> typeCode = c, typeUrl = hl7 n, parentUrl = Some (hl7 c),
           isAbstract = False, typeKind = k \<rparr>)"

definition exampleRecords :: "(string \<times> TypeRecord) list" where
  "exampleRecords =
     [baseType ''Element'' [] True ''complex-type'',
      baseType ''Quantity'' ''Element'' False ''complex-type'',
      baseType ''Duration'' ''Quantity'' False ''complex-type'',
      profileType ''SimpleQuantity'' ''Quantity'' ''complex-type'',
      baseType ''CodeableConcept'' ''Element'' False ''complex-type'',
      baseType ''string'' ''Element'' False ''primitive-type'',
      baseType ''integer'' ''Element'' False ''primitive-type'',
      baseType ''Resource'' [] True ''resource'',
      baseType ''DomainResource'' ''Resource'' True ''resource'',
      baseType ''Practitioner'' ''DomainResource'' False ''resource'',
      baseType ''PractitionerRole'' ''DomainResource'' False ''resource'',
      baseType ''Medication'' ''DomainResource'' False ''resource'',
      baseType ''Observation'' ''DomainResource'' False ''resource'',
      profileType ''bodyheight'' ''Observation'' ''resource'']"

definition exampleOracle :: TypeOracle where
  "exampleOracle =
     \<lparr> resolve = (\<lambda>identifier.
          case map_of exampleRecords identifier of
            Some r \<Rightarrow> Some r
          | None \<Rightarrow> find (\<lambda>r. typeUrl r = identifier) (map snd exampleRecords)),
       maxDepth = 8 \<rparr>"

definition valueSlot :: "string \<Rightarrow> ElementDefinitionType" where
  "valueSlot c = \<lparr> code' = c, profile = None, targetProfile = None \<rparr>"

definition plain :: "string \<Rightarrow> OnlyRuleType" where
  "plain n = \<lparr> typeName = n, isReference = False, isCanonical = False \<rparr>"

definition reference :: "string \<Rightarrow> OnlyRuleType" where
  "reference n = \<lparr> typeName = n, isReference = True, isCanonical = False \<rparr>"

definition valueX :: ElementDefinition where
  "valueX = \<lparr> elemPath = ''Observation.value[x]'',
              type' = [valueSlot ''Quantity'', valueSlot ''CodeableConcept'', valueSlot ''string''] \<rparr>"

definition performer :: ElementDefinition where
  "performer = \<lparr> elemPath = ''Observation.performer'',
       type' = [\<lparr> code' = ''Reference'', profile = None,
                  targetProfile = Some [hl7 ''Practitioner'', hl7 ''PractitionerRole''] \<rparr>] \<rparr>"

definition valueX_simpleQuantity :: ElementDefinition where
  "valueX_simpleQuantity = valueX \<lparr> type' :=
     [\<lparr> code' = ''Quantity'', profile = Some [hl7 ''SimpleQuantity''], targetProfile = None \<rparr>,
      valueSlot ''CodeableConcept'', valueSlot ''string''] \<rparr>"

section \<open>The export scheduler\<close>

text \<open>Modelled from the spec: \<open>StructureDefinitionExporter\<close> is not among the sources (only
  the tests of the export of logical models are). The definitions of this section follow
  the spec's description of the export dependency scheduler, step by step.\<close>

subsection \<open>Artifacts, diagnostics and the scheduler's state\<close>

text \<open>Modelled from the spec: an export artifact, with id, canonical url, base definition
  and the materialized element list.\<close>

record StructureDefinition =
  sdKind :: Type
  sdName :: string
  sdId :: string
  sdUrl :: string
  baseDefinition :: string
  elements :: "ElementDefinition list"

text \<open>Modelled from the spec: an entity is known to the scheduler by its kind and name.\<close>

type_synonym EntityKey = "Type \<times> string"

text \<open>Modelled from the spec: the failures of an entity: a cycle, or a parent that cannot be
  resolved or whose export failed.\<close>

datatype ExportError = CyclicDependency string | UnresolvedParent string

text \<open>Modelled from the spec: the failures of a single rule.\<close>

datatype RuleError =
    ConstrainedParentElement
  | TypeConstraint ConstrainError
  | ElementNotFound
  | RuleNotApplied

text \<open>Modelled from the spec: what the diagnostic sink receives: the failure of an entity, or of one
  of its rules.\<close>

datatype Diagnostic =
    EntityFailed EntityKey ExportError
  | RuleFailed EntityKey Rule RuleError

text \<open>Modelled from the spec: the state of an entity key is not-started (\<open>None\<close>),
  in-progress or done; a done entity holds its artifact, or nothing when it is done with an
  error.\<close>

datatype ExportStatus = InProgress | Done "StructureDefinition option"

text \<open>Modelled from the spec: the scheduler's state: the state of every entity key, the result set
  in export order, and the diagnostics logged so far.\<close>

record ExportState =
  status :: "EntityKey \<Rightarrow> ExportStatus option"
  exported :: "StructureDefinition list"
  diagnostics :: "Diagnostic list"

text \<open>Modelled from the spec: the collaborators the scheduler consumes: the type hierarchy
  oracle, the element list of a type defined outside the tank, and the application of the
  rules that are neither type constraints nor handled by the scheduler itself (\<open>None\<close> when
  the rule fails).\<close>

record Collaborators =
  typeOracle :: TypeOracle
  externalElements :: "string \<Rightarrow> ElementDefinition list"
  applyRule :: "Rule \<Rightarrow> ElementDefinition list \<Rightarrow> ElementDefinition list option"

text \<open>Modelled from the spec: the universal base type, the parent of an entity that declares none.\<close>

definition universalBase :: string where
  "universalBase = ''http://hl7.org/fhir/StructureDefinition/Base''"

subsection \<open>The authored structures\<close>

text \<open>\<open>getAllStructureDefinitions\<close>: profiles, extensions, logical models and resources, in
  that order; the class of each structure is kept as a tag.\<close>

definition getAllStructureDefinitions :: "FSHTank \<Rightarrow> (Type \<times> FshStructure) list" where
  "getAllStructureDefinitions tank =
     map (Pair Type_Profile) (getAllProfiles tank)
     @ map (Pair Type_Extension) (getAllExtensions tank)
     @ map (Pair Type_Logical) (getAllLogicals tank)
     @ map (Pair Type_Resource) (getAllResources tank)"

text \<open>Modelled from the spec: the key of an authored structure.\<close>

definition keyOf :: "Type \<times> FshStructure \<Rightarrow> EntityKey" where
  "keyOf e = (fst e, name (snd e))"

text \<open>Modelled from the spec: the authored structure in what the fishing resolver returns, if it
  is one.\<close>

fun structureOf :: "FishResult \<Rightarrow> (Type \<times> FshStructure) option" where
  "structureOf (R_Profile p) = Some (Type_Profile, p)"
| "structureOf (R_Extension e) = Some (Type_Extension, e)"
| "structureOf (R_Logical l) = Some (Type_Logical, l)"
| "structureOf (R_Resource r) = Some (Type_Resource, r)"
| "structureOf other = None"

text \<open>Modelled from the spec: whether the parent identifier of the entity \<open>self\<close> names another authored structure:
  the fishing resolver is asked for a structure, and the entity itself does not count.\<close>

definition findAuthoredParent :: "FSHTank \<Rightarrow> EntityKey \<Rightarrow> string \<Rightarrow> (Type \<times> FshStructure) option" where
  "findAuthoredParent tank self parentName =
     (case fish tank parentName [Type_Profile, Type_Extension, Type_Logical, Type_Resource] of
        None \<Rightarrow> None
      | Some found \<Rightarrow>
          (case structureOf found of
             None \<Rightarrow> None
           | Some p \<Rightarrow> if keyOf p = self then None else Some p))"

subsection \<open>Applying the rules of an entity\<close>

text \<open>Modelled from the spec: whether a rule adds an element.\<close>

fun isAddElementRule :: "Rule \<Rightarrow> bool" where
  "isAddElementRule (AddElementRule p) = True"
| "isAddElementRule r = False"

text \<open>Modelled from the spec: step 4: on a logical model or a resource, a rule other than an add-element rule that
  names an element inherited from the parent is illegal.\<close>

definition constrainsParentElement :: "EntityKey \<Rightarrow> ElementDefinition list \<Rightarrow> Rule \<Rightarrow> bool" where
  "constrainsParentElement key inherited r =
     ((fst key = Type_Logical \<or> fst key = Type_Resource)
      \<and> \<not> isAddElementRule r
      \<and> path r \<in> set (map elemPath inherited))"

text \<open>Modelled from the spec: steps 3 and 4 for one rule: an illegal rule is reported and skipped; a type constraint
  goes to \<open>constrainType\<close>; every other rule goes to the collaborator. A rule that fails is
  reported and the next rule is applied.\<close>

definition applyOneRule ::
  "Collaborators \<Rightarrow> EntityKey \<Rightarrow> ElementDefinition list \<Rightarrow> Rule
     \<Rightarrow> ElementDefinition list \<times> Diagnostic list \<Rightarrow> ElementDefinition list \<times> Diagnostic list" where
  "applyOneRule c key inherited r acc =
     (if constrainsParentElement key inherited r
      then (fst acc, snd acc @ [RuleFailed key r ConstrainedParentElement])
      else (case r of
              OnlyRule p ts \<Rightarrow>
                (case find (\<lambda>e. elemPath e = p) (fst acc) of
                   None \<Rightarrow> (fst acc, snd acc @ [RuleFailed key r ElementNotFound])
                 | Some e \<Rightarrow>
                     (case constrainType (typeOracle c) e ts None of
                        (Some err, e') \<Rightarrow> (fst acc, snd acc @ [RuleFailed key r (TypeConstraint err)])
                      | (None, e') \<Rightarrow>
                          (map (\<lambda>x. if elemPath x = p then e' else x) (fst acc), snd acc)))
            | _ \<Rightarrow>
                (case applyRule c r (fst acc) of
                   None \<Rightarrow> (fst acc, snd acc @ [RuleFailed key r RuleNotApplied])
                 | Some els \<Rightarrow> (els, snd acc))))"

text \<open>Modelled from the spec: the rules of an entity are applied in order, starting from the
  inherited elements.\<close>

definition applyRules ::
  "Collaborators \<Rightarrow> EntityKey \<Rightarrow> ElementDefinition list \<Rightarrow> Rule list
     \<Rightarrow> ElementDefinition list \<times> Diagnostic list" where
  "applyRules c key inherited rs =
     foldl (\<lambda>acc r. applyOneRule c key inherited r acc) (inherited, []) rs"

subsection \<open>Exporting one entity\<close>

text \<open>Modelled from the spec: step 2, marking the entity in progress.\<close>

definition markInProgress :: "EntityKey \<Rightarrow> ExportState \<Rightarrow> ExportState" where
  "markInProgress key st = st \<lparr> status := (status st)(key \<mapsto> InProgress) \<rparr>"

text \<open>Modelled from the spec: step 5: a failing entity is logged, left out of the result set and marked done with
  an error.\<close>

definition failEntity :: "EntityKey \<Rightarrow> ExportError \<Rightarrow> ExportState \<Rightarrow> ExportState" where
  "failEntity key err st =
     st \<lparr> status := (status st)(key \<mapsto> Done None),
          diagnostics := diagnostics st @ [EntityFailed key err] \<rparr>"

text \<open>Modelled from the spec: steps 3 and 6: the rules are applied to the inherited elements; the artifact gets
  the base definition it was given and the canonical url made of the configured base and
  the id.\<close>

definition buildArtifact ::
  "Collaborators \<Rightarrow> FSHTank \<Rightarrow> Type \<times> FshStructure \<Rightarrow> string \<Rightarrow> ElementDefinition list
     \<Rightarrow> StructureDefinition" where
  "buildArtifact c tank e base inherited =
     \<lparr> sdKind = fst e, sdName = name (snd e), sdId = id' (snd e),
       sdUrl = getUrlFromFshDefinition (snd e) (canonical (config tank)),
       baseDefinition = base,
       elements = fst (applyRules c (keyOf e) inherited (rules (snd e))) \<rparr>"

text \<open>Modelled from the spec: a successful export: the artifact joins the result set, the entity is done, and
  what the rules reported is logged.\<close>

definition finishEntity ::
  "Collaborators \<Rightarrow> FSHTank \<Rightarrow> Type \<times> FshStructure \<Rightarrow> string \<Rightarrow> ElementDefinition list
     \<Rightarrow> ExportState \<Rightarrow> ExportState" where
  "finishEntity c tank e base inherited st =
     st \<lparr> status := (status st)(keyOf e \<mapsto> Done (Some (buildArtifact c tank e base inherited))),
          exported := exported st @ [buildArtifact c tank e base inherited],
          diagnostics := diagnostics st @ snd (applyRules c (keyOf e) inherited (rules (snd e))) \<rparr>"

text \<open>Modelled from the spec: step 2, after the parent has been exported: the entity goes on with the parent's
  artifact, or fails when the parent's export failed.\<close>

definition afterParent ::
  "Collaborators \<Rightarrow> FSHTank \<Rightarrow> Type \<times> FshStructure \<Rightarrow> string \<Rightarrow> Type \<times> FshStructure
     \<Rightarrow> ExportState \<Rightarrow> ExportState" where
  "afterParent c tank e p pe st =
     (case status st (keyOf pe) of
        Some (Done (Some artifact)) \<Rightarrow>
          finishEntity c tank e (sdUrl artifact) (elements artifact) st
      | _ \<Rightarrow> failEntity (keyOf e) (UnresolvedParent p) st)"

text \<open>Modelled from the spec: steps 1 and 2. An entity that is done, or in progress, is skipped. Otherwise it is
  marked in progress and its parent is looked at: no parent gives the universal base; a
  parent that is another authored structure is exported first, unless it is in progress
  (a cycle) or already done; any other parent is asked of the oracle.\<close>

function exportStructDef ::
  "Collaborators \<Rightarrow> FSHTank \<Rightarrow> Type \<times> FshStructure \<Rightarrow> ExportState \<Rightarrow> ExportState" where
  "exportStructDef c tank e st =
     (case status st (keyOf e) of
        Some s \<Rightarrow> st
      | None \<Rightarrow>
          (case parent (snd e) of
             None \<Rightarrow>
               finishEntity c tank e universalBase (externalElements c universalBase)
                 (markInProgress (keyOf e) st)
           | Some p \<Rightarrow>
               (case findAuthoredParent tank (keyOf e) p of
                  None \<Rightarrow>
                    (case resolve (typeOracle c) p of
                       None \<Rightarrow>
                         failEntity (keyOf e) (UnresolvedParent p) (markInProgress (keyOf e) st)
                     | Some r \<Rightarrow>
                         finishEntity c tank e (typeUrl r) (externalElements c (typeUrl r))
                           (markInProgress (keyOf e) st))
                | Some pe \<Rightarrow>
                    (case status (markInProgress (keyOf e) st) (keyOf pe) of
                       Some InProgress \<Rightarrow>
                         failEntity (keyOf e) (CyclicDependency p) (markInProgress (keyOf e) st)
                     | Some (Done None) \<Rightarrow>
                         failEntity (keyOf e) (UnresolvedParent p) (markInProgress (keyOf e) st)
                     | Some (Done (Some artifact)) \<Rightarrow>
                         finishEntity c tank e (sdUrl artifact) (elements artifact)
                           (markInProgress (keyOf e) st)
                     | None \<Rightarrow>
                         afterParent c tank e p pe
                           (exportStructDef c tank pe (markInProgress (keyOf e) st))))))"
  by pat_completeness auto
termination
proof (relation "measure (\<lambda>(c, tank, e, st).
         card {k \<in> insert (keyOf e) (set (map keyOf (getAllStructureDefinitions tank))).
                 status st k = None})")
  show "wf (measure (\<lambda>(c, tank, e, st).
         card {k \<in> insert (keyOf e) (set (map keyOf (getAllStructureDefinitions tank))).
                 status st k = None}))"
    by simp
next
  fix c :: Collaborators and tank :: FSHTank and e :: "Type \<times> FshStructure"
    and st :: ExportState and p :: string and pe :: "Type \<times> FshStructure"
  assume fresh: "status st (keyOf e) = None"
    and found: "findAuthoredParent tank (keyOf e) p = Some pe"
    and notStarted: "status (markInProgress (keyOf e) st) (keyOf pe) = None"
  have mem: "x \<in> set xs" if "find P xs = Some x" for P :: "'a \<Rightarrow> bool" and xs x
    using that by (induction xs) (auto split: if_splits)
  from found obtain res where
    res: "fish tank p [Type_Profile, Type_Extension, Type_Logical, Type_Resource] = Some res"
    and pe: "structureOf res = Some pe" and other: "keyOf pe \<noteq> keyOf e"
    by (auto simp: findAuthoredParent_def split: option.splits if_splits)
  from res have "\<exists>t \<in> {Type_Profile, Type_Extension, Type_Logical, Type_Resource}.
      fishType tank (aliasResolved tank p) t = Some res"
    by (auto simp: fish_def split: option.splits)
  with pe have "pe \<in> set (getAllStructureDefinitions tank)"
    by (auto simp: getAllStructureDefinitions_def orElse_def split: option.splits dest!: mem)
  then have inAK: "keyOf pe \<in> set (map keyOf (getAllStructureDefinitions tank))" by simp
  let ?AK = "set (map keyOf (getAllStructureDefinitions tank))"
  have "{k \<in> insert (keyOf pe) ?AK. status (markInProgress (keyOf e) st) k = None}
      \<subset> {k \<in> insert (keyOf e) ?AK. status st k = None}"
    using inAK fresh other by (auto simp: markInProgress_def)
  then have "card {k \<in> insert (keyOf pe) ?AK. status (markInProgress (keyOf e) st) k = None}
      < card {k \<in> insert (keyOf e) ?AK. status st k = None}"
    by (intro psubset_card_mono) simp_all
  then show "((c, tank, pe, markInProgress (keyOf e) st), c, tank, e, st)
      \<in> measure (\<lambda>(c, tank, e, st).
          card {k \<in> insert (keyOf e) (set (map keyOf (getAllStructureDefinitions tank))).
                  status st k = None})"
    by simp
qed

declare exportStructDef.simps [simp del]

text \<open>Modelled from the spec: before the first request nothing is started, exported or
  logged.\<close>

definition initialState :: ExportState where
  "initialState = \<lparr> status = (\<lambda>k. None), exported = [], diagnostics = [] \<rparr>"

text \<open>Modelled from the spec: \<open>export\<close>: every authored structure is requested in turn,
  starting with nothing exported.\<close>

definition export :: "Collaborators \<Rightarrow> FSHTank \<Rightarrow> ExportState" where
  "export c tank =
     foldl (\<lambda>st e. exportStructDef c tank e st) initialState (getAllStructureDefinitions tank)"

subsection \<open>Example exports\<close>

definition exampleCollaborators :: Collaborators where
  "exampleCollaborators =
     \<lparr> typeOracle = exampleOracle, externalElements = (\<lambda>u. []),
       applyRule = (\<lambda>r els. Some els) \<rparr>"

definition logical :: "string \<Rightarrow> string option \<Rightarrow> Logical" where
  "logical n p = \<lparr> name = n, id' = n, rules = [], parent = p \<rparr>"

definition tank_logicals :: "Logical list \<Rightarrow> FSHTank" where
  "tank_logicals ls =
     \<lparr> docs = [emptyDoc \<lparr> logicals := map (\<lambda>l. (name l, l)) ls \<rparr>], config = minimalConfig \<rparr>"

subsection \<open>A chain of three logical models\<close>

text \<open>The scenario of three logical models: \<open>Foo\<close> without parent, \<open>Bar\<close> with parent
  \<open>Foo\<close>, \<open>Baz\<close> with parent \<open>Bar\<close>, each with its name as id, in a tank that holds
  nothing else and no alias for the two parent names.\<close>

definition logicalChain :: "FSHTank \<Rightarrow> Logical \<Rightarrow> Logical \<Rightarrow> Logical \<Rightarrow> bool" where
  "logicalChain tank foo bar baz =
     (getAllProfiles tank = [] \<and> getAllExtensions tank = [] \<and> getAllResources tank = []
      \<and> getAllInstances tank = []
      \<and> resolveAlias tank ''Foo'' = None \<and> resolveAlias tank ''Bar'' = None
      \<and> set (getAllLogicals tank) = {foo, bar, baz}
      \<and> name foo = ''Foo'' \<and> id' foo = ''Foo'' \<and> parent foo = None
      \<and> name bar = ''Bar'' \<and> id' bar = ''Bar'' \<and> parent bar = Some ''Foo''
      \<and> name baz = ''Baz'' \<and> id' baz = ''Baz'' \<and> parent baz = Some ''Bar'')"

text \<open>The three artifacts of the chain: each is built on the artifact of its parent.\<close>

definition artifactFoo :: "Collaborators \<Rightarrow> FSHTank \<Rightarrow> Logical \<Rightarrow> StructureDefinition" where
  "artifactFoo c tank foo =
     buildArtifact c tank (Type_Logical, foo) universalBase (externalElements c universalBase)"

definition artifactBar :: "Collaborators \<Rightarrow> FSHTank \<Rightarrow> Logical \<Rightarrow> Logical \<Rightarrow> StructureDefinition" where
  "artifactBar c tank foo bar =
     buildArtifact c tank (Type_Logical, bar)
       (sdUrl (artifactFoo c tank foo)) (elements (artifactFoo c tank foo))"

definition artifactBaz ::
  "Collaborators \<Rightarrow> FSHTank \<Rightarrow> Logical \<Rightarrow> Logical \<Rightarrow> Logical \<Rightarrow> StructureDefinition" where
  "artifactBaz c tank foo bar baz =
     buildArtifact c tank (Type_Logical, baz)
       (sdUrl (artifactBar c tank foo bar)) (elements (artifactBar c tank foo bar))"

text \<open>The states the scheduler can be in between two requests: the first \<open>n\<close> models of
  the chain are done, the others are not started.\<close>

definition chainState ::
  "Collaborators \<Rightarrow> FSHTank \<Rightarrow> Logical \<Rightarrow> Logical \<Rightarrow> Logical \<Rightarrow> nat \<Rightarrow> ExportState \<Rightarrow> bool" where
  "chainState c tank foo bar baz n st =
     (exported st = take n [artifactFoo c tank foo, artifactBar c tank foo bar,
                            artifactBaz c tank foo bar baz]
      \<and> status st (Type_Logical, ''Foo'') =
          (if 1 \<le> n then Some (Done (Some (artifactFoo c tank foo))) else None)
      \<and> status st (Type_Logical, ''Bar'') =
          (if 2 \<le> n then Some (Done (Some (artifactBar c tank foo bar))) else None)
      \<and> status st (Type_Logical, ''Baz'') =
          (if 3 \<le> n then Some (Done (Some (artifactBaz c tank foo bar baz))) else None))"

definition tank_chain :: FSHTank where
  "tank_chain = tank_logicals
     [logical ''Baz'' (Some ''Bar''), logical ''Foo'' None, logical ''Bar'' (Some ''Foo'')]"

subsection \<open>What the scheduler keeps true\<close>









section \<open>Properties\<close>

subsection \<open>Alias resolution\<close>

lemma resolveAlias_docs_find:
  "\<forall>d \<in> set ds. map_of (aliases d) nm \<noteq> Some [] \<Longrightarrow>
   resolveAlias_docs ds nm =
     (case find (\<lambda>d. map_of (aliases d) nm \<noteq> None) ds of
        Some d \<Rightarrow> map_of (aliases d) nm | None \<Rightarrow> None)"
  by (induction ds) (auto split: option.splits)

lemma resolveAlias_docs_none:
  "\<forall>d \<in> set ds. map_of (aliases d) nm = None \<Longrightarrow> resolveAlias_docs ds nm = None"
  by (induction ds) auto

text \<open>C9 (as amended). When no alias table maps the name to the empty string,
  \<open>resolveAlias\<close> returns the string of the first document, in document order, whose
  alias table contains the name, and \<open>undefined\<close> (here \<open>None\<close>) when no table contains
  it; the original name is then kept by the caller, \<open>fish\<close>, through
  \<open>resolveAlias(item) ?? item\<close>.\<close>

theorem resolveAlias_first_document:
  assumes "\<forall>d \<in> set (docs tank). map_of (aliases d) nm \<noteq> Some []"
  shows "resolveAlias tank nm =
           (case find (\<lambda>d. map_of (aliases d) nm \<noteq> None) (docs tank) of
              Some d \<Rightarrow> map_of (aliases d) nm | None \<Rightarrow> None)
         \<and> ((\<forall>d \<in> set (docs tank). map_of (aliases d) nm = None) \<longrightarrow>
              resolveAlias tank nm = None \<and> aliasResolved tank nm = nm)"
proof (intro conjI impI)
  show "resolveAlias tank nm =
          (case find (\<lambda>d. map_of (aliases d) nm \<noteq> None) (docs tank) of
             Some d \<Rightarrow> map_of (aliases d) nm | None \<Rightarrow> None)"
    unfolding resolveAlias_def by (rule resolveAlias_docs_find [OF assms])
next
  assume none: "\<forall>d \<in> set (docs tank). map_of (aliases d) nm = None"
  then show r: "resolveAlias tank nm = None"
    unfolding resolveAlias_def by (rule resolveAlias_docs_none)
  then show "aliasResolved tank nm = nm"
    by (simp add: aliasResolved_def)
qed

theorem resolveAlias_first_document_witness:
  "map_of (aliases emptyDoc) ''LNC'' = None
   \<and> map_of (aliases doc_alias1) ''LNC'' = Some ''http://loinc.org''
   \<and> map_of (aliases doc_alias2) ''LNC'' = Some ''http://other.org''
   \<and> resolveAlias tank_alias ''LNC'' = Some ''http://loinc.org''
   \<and> resolveAlias tank_empty ''Foo'' = None
   \<and> aliasResolved tank_empty ''Foo'' = ''Foo''"
  using resolveAlias_first_document [of tank_alias "''LNC''"]
        resolveAlias_first_document [of tank_empty "''Foo''"]
  by (simp add: tank_alias_def tank_empty_def doc_alias1_def doc_alias2_def emptyDoc_def)

text \<open>C9 as stated fails: with no alias for the name, \<open>resolveAlias\<close> does not return
  the name.\<close>

theorem resolveAlias_absent_counterexample:
  "map_of (aliases emptyDoc) ''Foo'' = None
   \<and> docs tank_empty = [emptyDoc]
   \<and> resolveAlias tank_empty ''Foo'' \<noteq> Some ''Foo''"
  by (simp add: tank_empty_def emptyDoc_def resolveAlias_def)

subsection \<open>Kind priority\<close>



lemma find_SomeD: "find P xs = Some x \<Longrightarrow> P x \<and> x \<in> set xs"
  by (induction xs) (auto split: if_splits)

lemma find_hit: "x \<in> set xs \<Longrightarrow> P x \<Longrightarrow> \<exists>y. find P xs = Some y \<and> P y \<and> y \<in> set xs"
  by (induction xs) auto





lemmas getAll_defs = getAllProfiles_def getAllExtensions_def getAllLogicals_def
  getAllResources_def getAllInstances_def getAllValueSets_def getAllCodeSystems_def
  getAllInvariants_def getAllRuleSets_def getAllMappings_def flatMap_def

lemmas fish_eval = fish_def aliasResolved_def resolveAlias_def allTypes_def orElse_def
  matchesNameIdUrl_def getUrlFromFshDefinition_def some_def
  isProfileInstance_def isExtensionInstance_def isLogicalInstance_def isResourceInstance_def
  isValueSetInstance_def isCodeSystemInstance_def



subsection \<open>Matching within a kind\<close>

lemma fish_one: "fish tank item [k] = fishType tank (aliasResolved tank item) k"
  by (simp add: fish_def split: option.splits)

lemma direct_found:
  assumes "x \<in> set xs" "matchesNameIdUrl tank it x"
  shows "\<exists>q\<in>set xs. orElse (map_option C (find (matchesNameIdUrl tank it) xs)) fb = Some (C q)
            \<and> matchesNameIdUrl tank it q"
proof -
  from find_hit [of x xs "matchesNameIdUrl tank it", OF assms] obtain y where
    "find (matchesNameIdUrl tank it) xs = Some y" "matchesNameIdUrl tank it y" "y \<in> set xs"
    by blast
  then show ?thesis by (auto simp: orElse_def)
qed

lemma matchesNameIdUrl_iff:
  "matchesNameIdUrl tank it d \<longleftrightarrow>
     name d = it \<or> id' d = it \<or> canonical (config tank) @ id' d = it"
  by (simp add: matchesNameIdUrl_def getUrlFromFshDefinition_def)

lemma fish_direct_six:
  "\<forall>p\<in>set (getAllProfiles tank). matchesNameIdUrl tank (aliasResolved tank item) p \<longrightarrow>
      (\<exists>q\<in>set (getAllProfiles tank). fish tank item [Type_Profile] = Some (R_Profile q)
          \<and> matchesNameIdUrl tank (aliasResolved tank item) q)"
  "\<forall>p\<in>set (getAllExtensions tank). matchesNameIdUrl tank (aliasResolved tank item) p \<longrightarrow>
      (\<exists>q\<in>set (getAllExtensions tank). fish tank item [Type_Extension] = Some (R_Extension q)
          \<and> matchesNameIdUrl tank (aliasResolved tank item) q)"
  "\<forall>p\<in>set (getAllLogicals tank). matchesNameIdUrl tank (aliasResolved tank item) p \<longrightarrow>
      (\<exists>q\<in>set (getAllLogicals tank). fish tank item [Type_Logical] = Some (R_Logical q)
          \<and> matchesNameIdUrl tank (aliasResolved tank item) q)"
  "\<forall>p\<in>set (getAllResources tank). matchesNameIdUrl tank (aliasResolved tank item) p \<longrightarrow>
      (\<exists>q\<in>set (getAllResources tank). fish tank item [Type_Resource] = Some (R_Resource q)
          \<and> matchesNameIdUrl tank (aliasResolved tank item) q)"
  "\<forall>p\<in>set (getAllValueSets tank). matchesNameIdUrl tank (aliasResolved tank item) p \<longrightarrow>
      (\<exists>q\<in>set (getAllValueSets tank). fish tank item [Type_ValueSet] = Some (R_ValueSet q)
          \<and> matchesNameIdUrl tank (aliasResolved tank item) q)"
  "\<forall>p\<in>set (getAllCodeSystems tank). matchesNameIdUrl tank (aliasResolved tank item) p \<longrightarrow>
      (\<exists>q\<in>set (getAllCodeSystems tank). fish tank item [Type_CodeSystem] = Some (R_CodeSystem q)
          \<and> matchesNameIdUrl tank (aliasResolved tank item) q)"
  unfolding fish_one fishType.simps by (blast intro: direct_found)+

lemma fish_direct_instance:
  "\<forall>i\<in>set (getAllInstances tank). name i = aliasResolved tank item \<or> id' i = aliasResolved tank item \<longrightarrow>
      (\<exists>q\<in>set (getAllInstances tank). fish tank item [Type_Instance] = Some (R_Instance q)
          \<and> (name q = aliasResolved tank item \<or> id' q = aliasResolved tank item))"
proof (intro ballI impI)
  fix i assume "i \<in> set (getAllInstances tank)"
    "name i = aliasResolved tank item \<or> id' i = aliasResolved tank item"
  from find_hit [of i _ "\<lambda>i. name i = aliasResolved tank item \<or> id' i = aliasResolved tank item", OF this]
  show "\<exists>q\<in>set (getAllInstances tank). fish tank item [Type_Instance] = Some (R_Instance q)
          \<and> (name q = aliasResolved tank item \<or> id' q = aliasResolved tank item)"
    unfolding fish_one by auto
qed

lemma fish_direct_named:
  "\<forall>i\<in>set (getAllInvariants tank). name i = aliasResolved tank item \<longrightarrow>
      (\<exists>q\<in>set (getAllInvariants tank). fish tank item [Type_Invariant] = Some (R_Invariant q)
          \<and> name q = aliasResolved tank item)"
  "\<forall>i\<in>set (getAllRuleSets tank). name i = aliasResolved tank item \<longrightarrow>
      (\<exists>q\<in>set (getAllRuleSets tank). fish tank item [Type_RuleSet] = Some (R_RuleSet q)
          \<and> name q = aliasResolved tank item)"
  "\<forall>i\<in>set (getAllMappings tank). name i = aliasResolved tank item \<longrightarrow>
      (\<exists>q\<in>set (getAllMappings tank). fish tank item [Type_Mapping] = Some (R_Mapping q)
          \<and> name q = aliasResolved tank item)"
proof -
  have *: "\<And>xs C. \<forall>i\<in>set xs. name i = aliasResolved tank item \<longrightarrow>
      (\<exists>q\<in>set xs. map_option C (find (\<lambda>i. name i = aliasResolved tank item) xs) = Some (C q)
          \<and> name q = aliasResolved tank item)"
  proof (intro ballI impI)
    fix xs :: "'a Named_scheme list" and C :: "'a Named_scheme \<Rightarrow> 'b" and i
    assume "i \<in> set xs" "name i = aliasResolved tank item"
    from find_hit [of i xs "\<lambda>i. name i = aliasResolved tank item", OF this]
    show "\<exists>q\<in>set xs. map_option C (find (\<lambda>i. name i = aliasResolved tank item) xs) = Some (C q)
          \<and> name q = aliasResolved tank item" by auto
  qed
  show "\<forall>i\<in>set (getAllInvariants tank). name i = aliasResolved tank item \<longrightarrow>
      (\<exists>q\<in>set (getAllInvariants tank). fish tank item [Type_Invariant] = Some (R_Invariant q)
          \<and> name q = aliasResolved tank item)"
    unfolding fish_one fishType.simps by (rule *)
  show "\<forall>i\<in>set (getAllRuleSets tank). name i = aliasResolved tank item \<longrightarrow>
      (\<exists>q\<in>set (getAllRuleSets tank). fish tank item [Type_RuleSet] = Some (R_RuleSet q)
          \<and> name q = aliasResolved tank item)"
    unfolding fish_one fishType.simps by (rule *)
  show "\<forall>i\<in>set (getAllMappings tank). name i = aliasResolved tank item \<longrightarrow>
      (\<exists>q\<in>set (getAllMappings tank). fish tank item [Type_Mapping] = Some (R_Mapping q)
          \<and> name q = aliasResolved tank item)"
    unfolding fish_one fishType.simps by (rule *)
qed

lemma fish_restricted_only:
  "fish tank item [Type_Instance] = Some r \<longrightarrow>
     (\<exists>q\<in>set (getAllInstances tank). r = R_Instance q
        \<and> (name q = aliasResolved tank item \<or> id' q = aliasResolved tank item))"
  "fish tank item [Type_Invariant] = Some r \<longrightarrow>
     (\<exists>q\<in>set (getAllInvariants tank). r = R_Invariant q \<and> name q = aliasResolved tank item)"
  "fish tank item [Type_RuleSet] = Some r \<longrightarrow>
     (\<exists>q\<in>set (getAllRuleSets tank). r = R_RuleSet q \<and> name q = aliasResolved tank item)"
  "fish tank item [Type_Mapping] = Some r \<longrightarrow>
     (\<exists>q\<in>set (getAllMappings tank). r = R_Mapping q \<and> name q = aliasResolved tank item)"
  unfolding fish_one fishType.simps by (auto dest: find_SomeD)


text \<open>C8 (as amended). For the kinds Profile, Extension, Logical, Resource, ValueSet and
  CodeSystem, \<open>fish\<close> matches a declared entity of the kind when the alias-resolved item
  equals the entity's name, its id, or its canonical URL (the configured base url followed by
  the id). For the kind Instance it matches on name or id only, and for Invariant, RuleSet
  and Mapping on name only: what these four kinds return always matches in that way.\<close>

theorem fish_direct_match:
  "(\<forall>p\<in>set (getAllProfiles tank).
        name p = aliasResolved tank item \<or> id' p = aliasResolved tank item
        \<or> canonical (config tank) @ id' p = aliasResolved tank item \<longrightarrow>
        (\<exists>q\<in>set (getAllProfiles tank). fish tank item [Type_Profile] = Some (R_Profile q)
           \<and> (name q = aliasResolved tank item \<or> id' q = aliasResolved tank item
                \<or> canonical (config tank) @ id' q = aliasResolved tank item)))
   \<and> (\<forall>p\<in>set (getAllExtensions tank).
        name p = aliasResolved tank item \<or> id' p = aliasResolved tank item
        \<or> canonical (config tank) @ id' p = aliasResolved tank item \<longrightarrow>
        (\<exists>q\<in>set (getAllExtensions tank). fish tank item [Type_Extension] = Some (R_Extension q)
           \<and> (name q = aliasResolved tank item \<or> id' q = aliasResolved tank item
                \<or> canonical (config tank) @ id' q = aliasResolved tank item)))
   \<and> (\<forall>p\<in>set (getAllLogicals tank).
        name p = aliasResolved tank item \<or> id' p = aliasResolved tank item
        \<or> canonical (config tank) @ id' p = aliasResolved tank item \<longrightarrow>
        (\<exists>q\<in>set (getAllLogicals tank). fish tank item [Type_Logical] = Some (R_Logical q)
           \<and> (name q = aliasResolved tank item \<or> id' q = aliasResolved tank item
                \<or> canonical (config tank) @ id' q = aliasResolved tank item)))
   \<and> (\<forall>p\<in>set (getAllResources tank).
        name p = aliasResolved tank item \<or> id' p = aliasResolved tank item
        \<or> canonical (config tank) @ id' p = aliasResolved tank item \<longrightarrow>
        (\<exists>q\<in>set (getAllResources tank). fish tank item [Type_Resource] = Some (R_Resource q)
           \<and> (name q = aliasResolved tank item \<or> id' q = aliasResolved tank item
                \<or> canonical (config tank) @ id' q = aliasResolved tank item)))
   \<and> (\<forall>p\<in>set (getAllValueSets tank).
        name p = aliasResolved tank item \<or> id' p = aliasResolved tank item
        \<or> canonical (config tank) @ id' p = aliasResolved tank item \<longrightarrow>
        (\<exists>q\<in>set (getAllValueSets tank). fish tank item [Type_ValueSet] = Some (R_ValueSet q)
           \<and> (name q = aliasResolved tank item \<or> id' q = aliasResolved tank item
                \<or> canonical (config tank) @ id' q = aliasResolved tank item)))
   \<and> (\<forall>p\<in>set (getAllCodeSystems tank).
        name p = aliasResolved tank item \<or> id' p = aliasResolved tank item
        \<or> canonical (config tank) @ id' p = aliasResolved tank item \<longrightarrow>
        (\<exists>q\<in>set (getAllCodeSystems tank). fish tank item [Type_CodeSystem] = Some (R_CodeSystem q)
           \<and> (name q = aliasResolved tank item \<or> id' q = aliasResolved tank item
                \<or> canonical (config tank) @ id' q = aliasResolved tank item)))
   \<and> (\<forall>p\<in>set (getAllInstances tank).
        name p = aliasResolved tank item \<or> id' p = aliasResolved tank item \<longrightarrow>
        (\<exists>q\<in>set (getAllInstances tank). fish tank item [Type_Instance] = Some (R_Instance q)
           \<and> (name q = aliasResolved tank item \<or> id' q = aliasResolved tank item)))
   \<and> (\<forall>r. fish tank item [Type_Instance] = Some r \<longrightarrow>
        (\<exists>q\<in>set (getAllInstances tank). r = R_Instance q
           \<and> (name q = aliasResolved tank item \<or> id' q = aliasResolved tank item)))
   \<and> (\<forall>p\<in>set (getAllInvariants tank). name p = aliasResolved tank item \<longrightarrow>
        (\<exists>q\<in>set (getAllInvariants tank). fish tank item [Type_Invariant] = Some (R_Invariant q)
           \<and> name q = aliasResolved tank item))
   \<and> (\<forall>r. fish tank item [Type_Invariant] = Some r \<longrightarrow>
        (\<exists>q\<in>set (getAllInvariants tank). r = R_Invariant q \<and> name q = aliasResolved tank item))
   \<and> (\<forall>p\<in>set (getAllRuleSets tank). name p = aliasResolved tank item \<longrightarrow>
        (\<exists>q\<in>set (getAllRuleSets tank). fish tank item [Type_RuleSet] = Some (R_RuleSet q)
           \<and> name q = aliasResolved tank item))
   \<and> (\<forall>r. fish tank item [Type_RuleSet] = Some r \<longrightarrow>
        (\<exists>q\<in>set (getAllRuleSets tank). r = R_RuleSet q \<and> name q = aliasResolved tank item))
   \<and> (\<forall>p\<in>set (getAllMappings tank). name p = aliasResolved tank item \<longrightarrow>
        (\<exists>q\<in>set (getAllMappings tank). fish tank item [Type_Mapping] = Some (R_Mapping q)
           \<and> name q = aliasResolved tank item))
   \<and> (\<forall>r. fish tank item [Type_Mapping] = Some r \<longrightarrow>
        (\<exists>q\<in>set (getAllMappings tank). r = R_Mapping q \<and> name q = aliasResolved tank item))"
  using fish_direct_six [of tank item] fish_direct_instance [of tank item]
    fish_direct_named [of tank item] fish_restricted_only [of tank item]
  unfolding matchesNameIdUrl_iff by blast

lemma fishType_instance_usage:
  "fishType tank it t = Some (R_Instance i) \<Longrightarrow> t = Type_Instance \<or> usage i = Some Definition"
  by (cases t)
     (auto simp: orElse_def isProfileInstance_def isExtensionInstance_def isLogicalInstance_def
        isResourceInstance_def isValueSetInstance_def isCodeSystemInstance_def
        split: option.splits dest!: find_SomeD)

lemma fish_types_SomeD:
  "fish_types tank it ts = Some r \<Longrightarrow> \<exists>t\<in>set ts. fishType tank it t = Some r"
  by (induction ts) (auto split: option.splits)

text \<open>C10. A new instance has its id equal to its name and usage \<open>Example\<close>. An instance whose
  usage is not \<open>Definition\<close> is returned only by the search of the kind Instance: no
  search restricted to other kinds returns it.\<close>

theorem instance_defaults_never_masquerade:
  "name (new_Instance nm) = nm \<and> id' (new_Instance nm) = nm
   \<and> usage (new_Instance nm) = Some Example
   \<and> (\<forall>t i. fishType tank (aliasResolved tank item) t = Some (R_Instance i)
          \<and> usage i \<noteq> Some Definition \<longrightarrow> t = Type_Instance)
   \<and> (\<forall>types i. types \<noteq> [] \<and> Type_Instance \<notin> set types \<and> usage i \<noteq> Some Definition
          \<longrightarrow> fish tank item types \<noteq> Some (R_Instance i))"
proof (intro conjI allI impI)
  fix t :: Type and i :: Instance
  assume "fishType tank (aliasResolved tank item) t = Some (R_Instance i)
          \<and> usage i \<noteq> Some Definition"
  then show "t = Type_Instance" using fishType_instance_usage by blast
next
  fix types :: "Type list" and i :: Instance
  assume a: "types \<noteq> [] \<and> Type_Instance \<notin> set types \<and> usage i \<noteq> Some Definition"
  show "fish tank item types \<noteq> Some (R_Instance i)"
  proof
    assume "fish tank item types = Some (R_Instance i)"
    with a have "fish_types tank (aliasResolved tank item) types = Some (R_Instance i)"
      by (simp add: fish_def)
    from fish_types_SomeD [OF this] obtain t where
      "t \<in> set types" "fishType tank (aliasResolved tank item) t = Some (R_Instance i)" by blast
    with a fishType_instance_usage [of tank _ t i] show False by auto
  qed
qed (simp_all add: new_Instance_def)

lemma some_codeAssignment:
  "some rs (isCodeAssignment p c) \<longleftrightarrow>
     (\<exists>v. AssignmentRule p (ValFshCode v) \<in> set rs \<and> code v = c)"
proof -
  have "isCodeAssignment p c r \<longleftrightarrow> (\<exists>v. r = AssignmentRule p (ValFshCode v) \<and> code v = c)" for r
    by (cases "(p, c, r)" rule: isCodeAssignment.cases) auto
  then show ?thesis by (auto simp: some_def list_ex_iff)
qed

text \<open>C7. When no declared resource matches the item, whatever \<open>fish(item, Resource)\<close> returns is
  an instance of \<open>StructureDefinition\<close> with usage \<open>Definition\<close>, with a rule assigning the
  code \<open>specialization\<close> to \<open>derivation\<close> and a rule assigning the code \<open>resource\<close> to
  \<open>kind\<close>, matched by name, id or canonical URL; and whenever the tank holds such an
  instance, one is returned.\<close>

theorem fish_resource_instance:
  assumes "\<forall>r\<in>set (getAllResources tank).
             name r \<noteq> aliasResolved tank item \<and> id' r \<noteq> aliasResolved tank item
             \<and> canonical (config tank) @ id' r \<noteq> aliasResolved tank item"
  shows "(\<forall>res. fish tank item [Type_Resource] = Some res \<longrightarrow>
            (\<exists>i\<in>set (getAllInstances tank). res = R_Instance i
               \<and> instanceOf i = Some ''StructureDefinition''
               \<and> usage i = Some Definition
               \<and> (\<exists>v. AssignmentRule ''derivation'' (ValFshCode v) \<in> set (rules i)
                      \<and> code v = ''specialization'')
               \<and> (\<exists>v. AssignmentRule ''kind'' (ValFshCode v) \<in> set (rules i)
                      \<and> code v = ''resource'')
               \<and> (name i = aliasResolved tank item \<or> id' i = aliasResolved tank item
                    \<or> canonical (config tank) @ id' i = aliasResolved tank item)))
       \<and> (\<forall>i\<in>set (getAllInstances tank).
              instanceOf i = Some ''StructureDefinition''
              \<and> usage i = Some Definition
              \<and> (\<exists>v. AssignmentRule ''derivation'' (ValFshCode v) \<in> set (rules i)
                     \<and> code v = ''specialization'')
              \<and> (\<exists>v. AssignmentRule ''kind'' (ValFshCode v) \<in> set (rules i)
                     \<and> code v = ''resource'')
              \<and> (name i = aliasResolved tank item \<or> id' i = aliasResolved tank item
                   \<or> canonical (config tank) @ id' i = aliasResolved tank item)
            \<longrightarrow> (\<exists>j\<in>set (getAllInstances tank).
                   fish tank item [Type_Resource] = Some (R_Instance j)))"
proof -
  let ?it = "aliasResolved tank item"
  have none: "find (matchesNameIdUrl tank ?it) (getAllResources tank) = None"
    using assms by (auto simp: find_None_iff matchesNameIdUrl_iff)
  then have eq: "fish tank item [Type_Resource] =
      map_option R_Instance (find (isResourceInstance tank ?it) (getAllInstances tank))"
    by (simp add: fish_one orElse_def)
  have char: "isResourceInstance tank ?it i \<longleftrightarrow>
      instanceOf i = Some ''StructureDefinition''
      \<and> usage i = Some Definition
      \<and> (\<exists>v. AssignmentRule ''derivation'' (ValFshCode v) \<in> set (rules i)
             \<and> code v = ''specialization'')
      \<and> (\<exists>v. AssignmentRule ''kind'' (ValFshCode v) \<in> set (rules i) \<and> code v = ''resource'')
      \<and> (name i = ?it \<or> id' i = ?it \<or> canonical (config tank) @ id' i = ?it)" for i
    unfolding isResourceInstance_def some_codeAssignment matchesNameIdUrl_iff by blast
  show ?thesis
  proof (intro conjI allI ballI impI)
    fix res assume "fish tank item [Type_Resource] = Some res"
    with eq have "map_option R_Instance
        (find (isResourceInstance tank ?it) (getAllInstances tank)) = Some res" by simp
    then obtain i where i: "find (isResourceInstance tank ?it) (getAllInstances tank) = Some i"
      "res = R_Instance i" unfolding map_option_eq_Some by blast
    from find_SomeD [OF i(1)] have "isResourceInstance tank ?it i" "i \<in> set (getAllInstances tank)"
      by auto
    with i(2) char [of i] show "\<exists>i\<in>set (getAllInstances tank). res = R_Instance i
               \<and> instanceOf i = Some ''StructureDefinition''
               \<and> usage i = Some Definition
               \<and> (\<exists>v. AssignmentRule ''derivation'' (ValFshCode v) \<in> set (rules i)
                      \<and> code v = ''specialization'')
               \<and> (\<exists>v. AssignmentRule ''kind'' (ValFshCode v) \<in> set (rules i)
                      \<and> code v = ''resource'')
               \<and> (name i = aliasResolved tank item \<or> id' i = aliasResolved tank item
                    \<or> canonical (config tank) @ id' i = aliasResolved tank item)"
      by blast
  next
    fix i assume "i \<in> set (getAllInstances tank)" and c: "instanceOf i = Some ''StructureDefinition''
              \<and> usage i = Some Definition
              \<and> (\<exists>v. AssignmentRule ''derivation'' (ValFshCode v) \<in> set (rules i)
                     \<and> code v = ''specialization'')
              \<and> (\<exists>v. AssignmentRule ''kind'' (ValFshCode v) \<in> set (rules i)
                     \<and> code v = ''resource'')
              \<and> (name i = aliasResolved tank item \<or> id' i = aliasResolved tank item
                   \<or> canonical (config tank) @ id' i = aliasResolved tank item)"
    moreover from c have "isResourceInstance tank ?it i" using char [of i] by blast
    ultimately obtain j where "find (isResourceInstance tank ?it) (getAllInstances tank) = Some j"
      "j \<in> set (getAllInstances tank)"
      using find_hit [of i "getAllInstances tank" "isResourceInstance tank ?it"] by blast
    with eq show "\<exists>j\<in>set (getAllInstances tank). fish tank item [Type_Resource] = Some (R_Instance j)"
      by auto
  qed
qed


theorem fish_direct_match_witness:
  "profileFoo \<in> set (getAllProfiles tank_profile)
   \<and> canonical (config tank_profile) @ id' profileFoo = ''http://example.org/foo-profile''
   \<and> aliasResolved tank_profile ''http://example.org/foo-profile'' = ''http://example.org/foo-profile''
   \<and> fish tank_profile ''http://example.org/foo-profile'' [Type_Profile] = Some (R_Profile profileFoo)"
proof -
  have ps: "getAllProfiles tank_profile = [profileFoo]"
    by (simp add: tank_profile_def emptyDoc_def getAll_defs)
  have url: "canonical (config tank_profile) @ id' profileFoo = ''http://example.org/foo-profile''"
    by (simp add: tank_profile_def minimalConfig_def profileFoo_def)
  have al: "aliasResolved tank_profile ''http://example.org/foo-profile'' = ''http://example.org/foo-profile''"
    by (simp add: tank_profile_def emptyDoc_def aliasResolved_def resolveAlias_def)
  have "\<forall>p\<in>set (getAllProfiles tank_profile).
        name p = aliasResolved tank_profile ''http://example.org/foo-profile''
        \<or> id' p = aliasResolved tank_profile ''http://example.org/foo-profile''
        \<or> canonical (config tank_profile) @ id' p = aliasResolved tank_profile ''http://example.org/foo-profile'' \<longrightarrow>
        (\<exists>q\<in>set (getAllProfiles tank_profile). fish tank_profile ''http://example.org/foo-profile'' [Type_Profile] = Some (R_Profile q)
           \<and> (name q = aliasResolved tank_profile ''http://example.org/foo-profile'' \<or> id' q = aliasResolved tank_profile ''http://example.org/foo-profile''
                \<or> canonical (config tank_profile) @ id' q = aliasResolved tank_profile ''http://example.org/foo-profile''))"
    using fish_direct_match [of tank_profile "''http://example.org/foo-profile''"] by (rule conjunct1)
  then have "fish tank_profile ''http://example.org/foo-profile'' [Type_Profile] = Some (R_Profile profileFoo)"
    unfolding ps al using url by simp
  with ps url al show ?thesis by simp
qed

text \<open>C8 as stated fails for the later kinds: an instance is not found by its canonical URL and
  a mapping is not found by its id.\<close>

theorem fish_direct_match_counterexample:
  "instanceExample \<in> set (getAllInstances tank_instance_mapping)
   \<and> canonical (config tank_instance_mapping) @ id' instanceExample
       = ''http://example.org/patient-example''
   \<and> aliasResolved tank_instance_mapping ''http://example.org/patient-example''
       = ''http://example.org/patient-example''
   \<and> fish tank_instance_mapping ''http://example.org/patient-example'' [Type_Instance] = None
   \<and> mappingExample \<in> set (getAllMappings tank_instance_mapping)
   \<and> id' mappingExample = ''my-mapping''
   \<and> aliasResolved tank_instance_mapping ''my-mapping'' = ''my-mapping''
   \<and> fish tank_instance_mapping ''my-mapping'' [Type_Mapping] = None"
  by (simp add: tank_instance_mapping_def emptyDoc_def minimalConfig_def
      mappingExample_def instanceExample_def new_Instance_def getAll_defs fish_eval)

theorem fish_resource_instance_witness:
  "getAllResources tank_resourceInstance = []
   \<and> fish tank_resourceInstance ''MyResource'' [Type_Resource] = Some (R_Instance resourceInstance)"
proof -
  have rs: "getAllResources tank_resourceInstance = []"
    by (simp add: tank_resourceInstance_def emptyDoc_def getAll_defs)
  have insts: "getAllInstances tank_resourceInstance = [resourceInstance]"
    by (simp add: tank_resourceInstance_def emptyDoc_def getAll_defs)
  have al: "aliasResolved tank_resourceInstance ''MyResource'' = ''MyResource''"
    by (simp add: tank_resourceInstance_def emptyDoc_def aliasResolved_def resolveAlias_def)
  have h: "\<forall>r\<in>set (getAllResources tank_resourceInstance).
             name r \<noteq> aliasResolved tank_resourceInstance ''MyResource''
             \<and> id' r \<noteq> aliasResolved tank_resourceInstance ''MyResource''
             \<and> canonical (config tank_resourceInstance) @ id' r
                 \<noteq> aliasResolved tank_resourceInstance ''MyResource''"
    unfolding rs by simp
  have props: "instanceOf resourceInstance = Some ''StructureDefinition''"
    "usage resourceInstance = Some Definition"
    "AssignmentRule ''derivation''
       (ValFshCode \<lparr> code = ''specialization'', system = None, display = None \<rparr>)
       \<in> set (rules resourceInstance)"
    "AssignmentRule ''kind''
       (ValFshCode \<lparr> code = ''resource'', system = None, display = None \<rparr>)
       \<in> set (rules resourceInstance)"
    "name resourceInstance = ''MyResource''"
    by (simp_all add: resourceInstance_def new_Instance_def)
  have c1: "\<exists>v. AssignmentRule ''derivation'' (ValFshCode v) \<in> set (rules resourceInstance)
            \<and> code v = ''specialization''"
    by (rule exI [of _ "\<lparr> code = ''specialization'', system = None, display = None \<rparr>"])
       (simp add: props(3))
  have c2: "\<exists>v. AssignmentRule ''kind'' (ValFshCode v) \<in> set (rules resourceInstance)
            \<and> code v = ''resource''"
    by (rule exI [of _ "\<lparr> code = ''resource'', system = None, display = None \<rparr>"])
       (simp add: props(4))
  from fish_resource_instance [OF h, THEN conjunct2, rule_format, of resourceInstance]
    props(1,2,5) c1 c2
  have "\<exists>j\<in>set (getAllInstances tank_resourceInstance).
     fish tank_resourceInstance ''MyResource'' [Type_Resource] = Some (R_Instance j)"
    unfolding insts al by simp
  then show ?thesis unfolding insts using rs by simp
qed

theorem instance_defaults_never_masquerade_witness:
  "usage instanceNotDefinition = Some Example
   \<and> fish tank_instanceNotDefinition ''Foo'' [Type_Profile] \<noteq> Some (R_Instance instanceNotDefinition)
   \<and> fish tank_instanceNotDefinition ''Foo'' [] = Some (R_Instance instanceNotDefinition)"
proof -
  have u: "usage instanceNotDefinition = Some Example"
    by (simp add: instanceNotDefinition_def new_Instance_def)
  have "fish tank_instanceNotDefinition ''Foo'' [Type_Profile] \<noteq> Some (R_Instance instanceNotDefinition)"
    using instance_defaults_never_masquerade [of _ tank_instanceNotDefinition "''Foo''"] u
    by simp
  moreover have "fish tank_instanceNotDefinition ''Foo'' [] = Some (R_Instance instanceNotDefinition)"
    by (simp add: tank_instanceNotDefinition_def emptyDoc_def minimalConfig_def
      instanceNotDefinition_def new_Instance_def constraintCode_def getAll_defs fish_eval)
  ultimately show ?thesis using u by simp
qed

subsection \<open>Type constraints\<close>

text \<open>C1. Whenever \<open>constrainType\<close> fails, with whichever error, the element after the call is
  the element before the call, type list included.\<close>

theorem constrainType_atomic:
  "constrainType oracle element qs targetType = (Some e, element') \<Longrightarrow> element' = element"
  by (auto simp: constrainType_def split: sum.splits option.splits)

lemma indexed_nth:
  "(i, t) \<in> set (indexed xs) \<Longrightarrow> i < length xs \<and> t = xs ! i"
  by (auto simp: indexed_def set_zip)

lemma findTarget_bound:
  "findTarget target qs slots = Some i \<Longrightarrow> i < length slots"
  by (auto simp: findTarget_def dest!: find_SomeD indexed_nth)

lemma addValue_nonempty: "addValue acc i c urls \<noteq> []"
  by (cases acc) (auto split: if_splits)

lemma addTarget_nonempty: "addTarget acc i t url \<noteq> []"
  by (cases acc) (auto split: if_splits)

lemma addNarrowed_nonempty: "addNarrowed oracle acc i t k q r \<noteq> []"
  by (simp add: addNarrowed_def addValue_nonempty addTarget_nonempty)

lemma narrowAll_nonempty:
  "narrowAll oracle slots rs acc = Inr n \<Longrightarrow> rs \<noteq> [] \<or> acc \<noteq> [] \<Longrightarrow> n \<noteq> []"
proof (induction rs arbitrary: acc)
  case Nil
  then show ?case by simp
next
  case (Cons qr rs)
  obtain q r where qr: "qr = (q, r)" by (cases qr)
  from Cons.prems(1) obtain i k c where
    m: "findTypeMatch oracle slots q r = Some (i, k, c)"
    and rest: "narrowAll oracle slots rs (addNarrowed oracle acc i (slots ! i) k q r) = Inr n"
    unfolding qr by (auto split: option.splits if_splits)
  from Cons.IH [OF rest] addNarrowed_nonempty show ?case by blast
qed

lemma resolveAll_length: "resolveAll oracle qs = Inr rs \<Longrightarrow> length rs = length qs"
  by (induction qs arbitrary: rs) (auto split: option.splits sum.splits)

text \<open>C6. After a successful \<open>constrainType\<close> with a target type, the type list is the old one
  with the addressed slot \<open>i\<close> replaced, at its position, by its narrowing \<open>new\<close>: the
  slots before it and the slots after it are the old ones, in their order.\<close>

theorem constrainType_target_frame:
  assumes "constrainType oracle element qs (Some targetName) = (None, element')"
  shows "\<exists>target i new.
           resolve oracle (unversioned targetName) = Some target
         \<and> findTarget target qs (type' element) = Some i
         \<and> i < length (type' element)
         \<and> new \<noteq> []
         \<and> type' element' = take i (type' element) @ new @ drop (Suc i) (type' element)
         \<and> (\<forall>j < i. type' element' ! j = type' element ! j)
         \<and> drop (i + length new) (type' element') = drop (Suc i) (type' element)
         \<and> elemPath element' = elemPath element"
proof -
  obtain resolved where r: "resolveAll oracle qs = Inr resolved"
    using assms by (cases "resolveAll oracle qs") (auto simp: constrainType_def)
  obtain target where t: "resolve oracle (unversioned targetName) = Some target"
    using assms r by (cases "resolve oracle (unversioned targetName)") (auto simp: constrainType_def)
  obtain i where i: "findTarget target qs (type' element) = Some i"
    using assms r t by (cases "findTarget target qs (type' element)") (auto simp: constrainType_def)
  obtain narrowed where
    n: "narrowAll oracle [restrictToTarget target (type' element ! i)] resolved [] = Inr narrowed"
    using assms r t i
    by (cases "narrowAll oracle [restrictToTarget target (type' element ! i)] resolved []")
       (auto simp: constrainType_def)
  have e': "element' = (if qs = [] then element
               else element \<lparr> type' := take i (type' element)
                    @ map (\<lambda>(j, t). inPlace target (type' element ! i) t) narrowed
                    @ drop (Suc i) (type' element) \<rparr>)"
    using assms r t i n by (simp add: constrainType_def)
  have b: "i < length (type' element)" using i by (rule findTarget_bound)
  define new where "new = (if qs = [] then [type' element ! i]
     else map (\<lambda>(j, t). inPlace target (type' element ! i) t) narrowed)"
  have len: "length resolved = length qs" using r by (rule resolveAll_length)
  have "qs \<noteq> [] \<Longrightarrow> narrowed \<noteq> []"
    using narrowAll_nonempty [OF n] len by (cases resolved) auto
  then have ne: "new \<noteq> []" by (simp add: new_def)
  have eq: "type' element' = take i (type' element) @ new @ drop (Suc i) (type' element)"
    using e' b by (auto simp: new_def id_take_nth_drop [symmetric])
  have pre: "\<forall>j < i. type' element' ! j = type' element ! j"
    using b by (simp add: eq nth_append)
  have post: "drop (i + length new) (type' element') = drop (Suc i) (type' element)"
    using b by (simp add: eq)
  have "elemPath element' = elemPath element" using e' by simp
  with t i b ne eq pre post show ?thesis by blast
qed








theorem constrainType_atomic_witness:
  "constrainType exampleOracle valueX [plain ''Quantity'', plain ''integer''] None
     = (Some (InvalidType ''integer''), valueX)"
proof -
  have f: "fst (constrainType exampleOracle valueX [plain ''Quantity'', plain ''integer''] None)
     = Some (InvalidType ''integer'')"
    by code_simp
  then have "constrainType exampleOracle valueX [plain ''Quantity'', plain ''integer''] None
     = (Some (InvalidType ''integer''),
        snd (constrainType exampleOracle valueX [plain ''Quantity'', plain ''integer''] None))"
    by (metis prod.collapse)
  from this constrainType_atomic [OF this] show ?thesis by simp
qed

theorem constrainType_target_frame_witness:
  "constrainType exampleOracle valueX [plain ''SimpleQuantity''] (Some ''Quantity'')
     = (None, valueX_simpleQuantity)
   \<and> (\<exists>new. new \<noteq> [] \<and> type' valueX_simpleQuantity = new @ drop 1 (type' valueX))"
proof -
  have ev: "constrainType exampleOracle valueX [plain ''SimpleQuantity''] (Some ''Quantity'')
     = (None, valueX_simpleQuantity)"
    by code_simp
  from constrainType_target_frame [OF ev] obtain target i new where
    "findTarget target [plain ''SimpleQuantity''] (type' valueX) = Some i"
    "resolve exampleOracle (unversioned ''Quantity'') = Some target"
    "new \<noteq> []"
    "type' valueX_simpleQuantity = take i (type' valueX) @ new @ drop (Suc i) (type' valueX)"
    by blast
  moreover have "resolve exampleOracle (unversioned ''Quantity'')
     = Some (snd (baseType ''Quantity'' ''Element'' False ''complex-type''))"
    by code_simp
  moreover have "findTarget (snd (baseType ''Quantity'' ''Element'' False ''complex-type''))
     [plain ''SimpleQuantity''] (type' valueX) = Some 0"
    by code_simp
  ultimately have "new \<noteq> [] \<and> type' valueX_simpleQuantity = new @ drop 1 (type' valueX)"
    by simp
  with ev show ?thesis by blast
qed


subsection \<open>Export order\<close>

lemma export_done:
  "status st (keyOf e) = Some s \<Longrightarrow> exportStructDef c tank e st = st"
  by (simp add: exportStructDef.simps [of c tank e st])

lemma export_noParent:
  "status st (keyOf e) = None \<Longrightarrow> parent (snd e) = None \<Longrightarrow>
   exportStructDef c tank e st =
     finishEntity c tank e universalBase (externalElements c universalBase)
       (markInProgress (keyOf e) st)"
  by (simp add: exportStructDef.simps [of c tank e st])

lemma export_parentExported:
  "status st (keyOf e) = None \<Longrightarrow> parent (snd e) = Some p \<Longrightarrow>
   findAuthoredParent tank (keyOf e) p = Some pe \<Longrightarrow>
   status st (keyOf pe) = Some (Done (Some artifact)) \<Longrightarrow>
   exportStructDef c tank e st =
     finishEntity c tank e (sdUrl artifact) (elements artifact) (markInProgress (keyOf e) st)"
  by (cases "keyOf pe = keyOf e")
     (simp_all add: exportStructDef.simps [of c tank e st] markInProgress_def)

lemma export_parentFirst:
  "status st (keyOf e) = None \<Longrightarrow> parent (snd e) = Some p \<Longrightarrow>
   findAuthoredParent tank (keyOf e) p = Some pe \<Longrightarrow>
   status st (keyOf pe) = None \<Longrightarrow> keyOf pe \<noteq> keyOf e \<Longrightarrow>
   exportStructDef c tank e st =
     afterParent c tank e p pe (exportStructDef c tank pe (markInProgress (keyOf e) st))"
  by (simp add: exportStructDef.simps [of c tank e st] markInProgress_def)

lemma append_last_neq:
  "b \<noteq> [] \<Longrightarrow> c \<noteq> [] \<Longrightarrow> last b \<noteq> last c \<Longrightarrow> a @ b \<noteq> c"
  by (metis last_appendR)


lemma find_unique:
  "x \<in> set xs \<Longrightarrow> P x \<Longrightarrow> (\<forall>y \<in> set xs. P y \<longrightarrow> y = x) \<Longrightarrow> find P xs = Some x"
proof (induction xs)
  case Nil
  then show ?case by simp
next
  case (Cons a xs)
  show ?case
  proof (cases "P a")
    case True
    with Cons.prems(3) have "a = x" by simp
    with True show ?thesis by simp
  next
    case False
    with Cons.prems(1,2) have "x \<in> set xs" by auto
    moreover from Cons.prems(3) have "\<forall>y \<in> set xs. P y \<longrightarrow> y = x" by simp
    ultimately have "find P xs = Some x" using Cons.IH Cons.prems(2) by blast
    with False show ?thesis by simp
  qed
qed


lemma status_finishEntity:
  "status (finishEntity c tank e base inherited st) =
     (status st)(keyOf e \<mapsto> Done (Some (buildArtifact c tank e base inherited)))"
  "exported (finishEntity c tank e base inherited st) =
     exported st @ [buildArtifact c tank e base inherited]"
  by (simp_all add: finishEntity_def)

lemma status_markInProgress:
  "status (markInProgress k st) = (status st)(k \<mapsto> InProgress)"
  "exported (markInProgress k st) = exported st"
  by (simp_all add: markInProgress_def)

lemma chain_matches:
  assumes "logicalChain tank foo bar baz"
  shows "matchesNameIdUrl tank ''Foo'' x \<and> x \<in> {foo, bar, baz} \<longrightarrow> x = foo"
    and "matchesNameIdUrl tank ''Bar'' x \<and> x \<in> {foo, bar, baz} \<longrightarrow> x = bar"
    and "matchesNameIdUrl tank ''Foo'' foo" and "matchesNameIdUrl tank ''Bar'' bar"
proof -
  have n1: "b @ ''Bar'' \<noteq> ''Foo''" "b @ ''Baz'' \<noteq> ''Foo''"
    "b @ ''Foo'' \<noteq> ''Bar''" "b @ ''Baz'' \<noteq> ''Bar''" for b :: string
    by (rule append_last_neq; simp)+
  from assms have f: "name foo = ''Foo''" "id' foo = ''Foo''"
    and b: "name bar = ''Bar''" "id' bar = ''Bar''"
    and z: "name baz = ''Baz''" "id' baz = ''Baz''"
    by (simp_all add: logicalChain_def)
  show "matchesNameIdUrl tank ''Foo'' x \<and> x \<in> {foo, bar, baz} \<longrightarrow> x = foo"
    using f b z n1 by (auto simp: matchesNameIdUrl_def getUrlFromFshDefinition_def)
  show "matchesNameIdUrl tank ''Bar'' x \<and> x \<in> {foo, bar, baz} \<longrightarrow> x = bar"
    using f b z n1 by (auto simp: matchesNameIdUrl_def getUrlFromFshDefinition_def)
  show "matchesNameIdUrl tank ''Foo'' foo" using f by (simp add: matchesNameIdUrl_def)
  show "matchesNameIdUrl tank ''Bar'' bar" using b by (simp add: matchesNameIdUrl_def)
qed

lemma chain_fish:
  assumes "logicalChain tank foo bar baz"
  shows "fish tank ''Foo'' [Type_Profile, Type_Extension, Type_Logical, Type_Resource]
           = Some (R_Logical foo)"
    and "fish tank ''Bar'' [Type_Profile, Type_Extension, Type_Logical, Type_Resource]
           = Some (R_Logical bar)"
proof -
  from assms have e: "getAllProfiles tank = []" "getAllExtensions tank = []"
    "getAllInstances tank = []" and a: "resolveAlias tank ''Foo'' = None"
    "resolveAlias tank ''Bar'' = None" and s: "set (getAllLogicals tank) = {foo, bar, baz}"
    by (simp_all add: logicalChain_def)
  have "foo \<in> set (getAllLogicals tank)" using s by simp
  moreover have "\<forall>y \<in> set (getAllLogicals tank). matchesNameIdUrl tank ''Foo'' y \<longrightarrow> y = foo"
    using chain_matches(1) [OF assms] unfolding s by blast
  ultimately have "find (matchesNameIdUrl tank ''Foo'') (getAllLogicals tank) = Some foo"
    using chain_matches(3) [OF assms] by (intro find_unique)
  then show "fish tank ''Foo'' [Type_Profile, Type_Extension, Type_Logical, Type_Resource]
           = Some (R_Logical foo)"
    by (simp add: fish_def aliasResolved_def a e orElse_def)
  have "bar \<in> set (getAllLogicals tank)" using s by simp
  moreover have "\<forall>y \<in> set (getAllLogicals tank). matchesNameIdUrl tank ''Bar'' y \<longrightarrow> y = bar"
    using chain_matches(2) [OF assms] unfolding s by blast
  ultimately have "find (matchesNameIdUrl tank ''Bar'') (getAllLogicals tank) = Some bar"
    using chain_matches(4) [OF assms] by (intro find_unique)
  then show "fish tank ''Bar'' [Type_Profile, Type_Extension, Type_Logical, Type_Resource]
           = Some (R_Logical bar)"
    by (simp add: fish_def aliasResolved_def a e orElse_def)
qed

lemma chain_parent:
  assumes "logicalChain tank foo bar baz"
  shows "k \<noteq> (Type_Logical, ''Foo'') \<Longrightarrow>
           findAuthoredParent tank k ''Foo'' = Some (Type_Logical, foo)"
    and "k \<noteq> (Type_Logical, ''Bar'') \<Longrightarrow>
           findAuthoredParent tank k ''Bar'' = Some (Type_Logical, bar)"
proof -
  from assms have n: "name foo = ''Foo''" "name bar = ''Bar''"
    by (simp_all add: logicalChain_def)
  show "k \<noteq> (Type_Logical, ''Foo'') \<Longrightarrow>
           findAuthoredParent tank k ''Foo'' = Some (Type_Logical, foo)"
    by (simp add: findAuthoredParent_def chain_fish(1) [OF assms] keyOf_def n)
  show "k \<noteq> (Type_Logical, ''Bar'') \<Longrightarrow>
           findAuthoredParent tank k ''Bar'' = Some (Type_Logical, bar)"
    by (simp add: findAuthoredParent_def chain_fish(2) [OF assms] keyOf_def n)
qed


lemma chain_keys:
  assumes "logicalChain tank foo bar baz"
  shows "keyOf (Type_Logical, foo) = (Type_Logical, ''Foo'')"
    and "keyOf (Type_Logical, bar) = (Type_Logical, ''Bar'')"
    and "keyOf (Type_Logical, baz) = (Type_Logical, ''Baz'')"
    and "parent (snd (Type_Logical, foo)) = None"
    and "parent (snd (Type_Logical, bar)) = Some ''Foo''"
    and "parent (snd (Type_Logical, baz)) = Some ''Bar''"
  using assms by (simp_all add: logicalChain_def keyOf_def)

lemma step_foo:
  assumes S: "logicalChain tank foo bar baz"
    and f: "status st (Type_Logical, ''Foo'') = None"
  shows "exported (exportStructDef c tank (Type_Logical, foo) st)
           = exported st @ [artifactFoo c tank foo]"
    and "status (exportStructDef c tank (Type_Logical, foo) st)
           = (status st)((Type_Logical, ''Foo'') \<mapsto> Done (Some (artifactFoo c tank foo)))"
proof -
  note k = chain_keys [OF S]
  have e: "exportStructDef c tank (Type_Logical, foo) st =
     finishEntity c tank (Type_Logical, foo) universalBase (externalElements c universalBase)
       (markInProgress (keyOf (Type_Logical, foo)) st)"
    using f k(4) by (intro export_noParent) (simp_all add: k(1))
  show "exported (exportStructDef c tank (Type_Logical, foo) st)
           = exported st @ [artifactFoo c tank foo]"
    unfolding e by (simp add: status_finishEntity status_markInProgress artifactFoo_def)
  show "status (exportStructDef c tank (Type_Logical, foo) st)
           = (status st)((Type_Logical, ''Foo'') \<mapsto> Done (Some (artifactFoo c tank foo)))"
    unfolding e by (simp add: status_finishEntity status_markInProgress artifactFoo_def k(1))
qed

lemma step_bar:
  assumes S: "logicalChain tank foo bar baz"
    and b: "status st (Type_Logical, ''Bar'') = None"
    and f: "status st (Type_Logical, ''Foo'') = None
          \<or> status st (Type_Logical, ''Foo'') = Some (Done (Some (artifactFoo c tank foo)))"
  shows "exported (exportStructDef c tank (Type_Logical, bar) st)
           = exported st @ (if status st (Type_Logical, ''Foo'') = None
                            then [artifactFoo c tank foo, artifactBar c tank foo bar]
                            else [artifactBar c tank foo bar])"
    and "status (exportStructDef c tank (Type_Logical, bar) st)
           = (status st)((Type_Logical, ''Foo'') \<mapsto> Done (Some (artifactFoo c tank foo)),
                         (Type_Logical, ''Bar'') \<mapsto> Done (Some (artifactBar c tank foo bar)))"
proof -
  note k = chain_keys [OF S]
  have p: "findAuthoredParent tank (keyOf (Type_Logical, bar)) ''Foo'' = Some (Type_Logical, foo)"
    unfolding k(2) by (rule chain_parent(1) [OF S]) simp
  let ?st1 = "markInProgress (Type_Logical, ''Bar'') st"
  have both: "exported (exportStructDef c tank (Type_Logical, bar) st)
           = exported st @ (if status st (Type_Logical, ''Foo'') = None
                            then [artifactFoo c tank foo, artifactBar c tank foo bar]
                            else [artifactBar c tank foo bar])
     \<and> status (exportStructDef c tank (Type_Logical, bar) st)
           = (status st)((Type_Logical, ''Foo'') \<mapsto> Done (Some (artifactFoo c tank foo)),
                         (Type_Logical, ''Bar'') \<mapsto> Done (Some (artifactBar c tank foo bar)))"
  proof (cases "status st (Type_Logical, ''Foo'') = None")
    case True
    have e: "exportStructDef c tank (Type_Logical, bar) st =
       afterParent c tank (Type_Logical, bar) ''Foo'' (Type_Logical, foo)
         (exportStructDef c tank (Type_Logical, foo) ?st1)"
      using b True p k(5) export_parentFirst [of st "(Type_Logical, bar)" "''Foo''" tank
          "(Type_Logical, foo)" c]
      by (simp add: k(1,2))
    have f1: "status ?st1 (Type_Logical, ''Foo'') = None"
      using True by (simp add: status_markInProgress)
    note sf = step_foo [OF S f1, of c]
    have a: "afterParent c tank (Type_Logical, bar) ''Foo'' (Type_Logical, foo)
         (exportStructDef c tank (Type_Logical, foo) ?st1)
       = finishEntity c tank (Type_Logical, bar) (sdUrl (artifactFoo c tank foo))
           (elements (artifactFoo c tank foo)) (exportStructDef c tank (Type_Logical, foo) ?st1)"
      by (simp add: afterParent_def sf(2) k(1))
    show ?thesis
      unfolding e a using True
      by (simp add: status_finishEntity sf status_markInProgress artifactBar_def k(2)
          fun_upd_twist)
  next
    case False
    with f have d: "status st (Type_Logical, ''Foo'') = Some (Done (Some (artifactFoo c tank foo)))"
      by simp
    have e: "exportStructDef c tank (Type_Logical, bar) st =
       finishEntity c tank (Type_Logical, bar) (sdUrl (artifactFoo c tank foo))
         (elements (artifactFoo c tank foo)) ?st1"
      using b d p k(5) export_parentExported [of st "(Type_Logical, bar)" "''Foo''" tank
          "(Type_Logical, foo)" "artifactFoo c tank foo" c]
      by (simp add: k(1,2))
    have triv: "(status st)((Type_Logical, ''Foo'') \<mapsto> Done (Some (artifactFoo c tank foo)))
       = status st"
      using d by (simp add: fun_upd_idem)
    show ?thesis
      unfolding e using False
      by (simp add: status_finishEntity status_markInProgress artifactBar_def k(2) triv)
  qed
  from both show "exported (exportStructDef c tank (Type_Logical, bar) st)
           = exported st @ (if status st (Type_Logical, ''Foo'') = None
                            then [artifactFoo c tank foo, artifactBar c tank foo bar]
                            else [artifactBar c tank foo bar])" by (rule conjunct1)
  from both show "status (exportStructDef c tank (Type_Logical, bar) st)
           = (status st)((Type_Logical, ''Foo'') \<mapsto> Done (Some (artifactFoo c tank foo)),
                         (Type_Logical, ''Bar'') \<mapsto> Done (Some (artifactBar c tank foo bar)))"
    by (rule conjunct2)
qed


lemma step_baz:
  assumes S: "logicalChain tank foo bar baz"
    and z: "status st (Type_Logical, ''Baz'') = None"
    and bf: "status st (Type_Logical, ''Bar'') = None
               \<and> (status st (Type_Logical, ''Foo'') = None
                    \<or> status st (Type_Logical, ''Foo'') = Some (Done (Some (artifactFoo c tank foo))))
           \<or> status st (Type_Logical, ''Bar'') = Some (Done (Some (artifactBar c tank foo bar)))
               \<and> status st (Type_Logical, ''Foo'') = Some (Done (Some (artifactFoo c tank foo)))"
  shows "exported (exportStructDef c tank (Type_Logical, baz) st)
           = exported st @
               (if status st (Type_Logical, ''Bar'') = None
                then (if status st (Type_Logical, ''Foo'') = None
                      then [artifactFoo c tank foo, artifactBar c tank foo bar,
                            artifactBaz c tank foo bar baz]
                      else [artifactBar c tank foo bar, artifactBaz c tank foo bar baz])
                else [artifactBaz c tank foo bar baz])
       \<and> status (exportStructDef c tank (Type_Logical, baz) st)
           = (status st)((Type_Logical, ''Foo'') \<mapsto> Done (Some (artifactFoo c tank foo)),
                         (Type_Logical, ''Bar'') \<mapsto> Done (Some (artifactBar c tank foo bar)),
                         (Type_Logical, ''Baz'') \<mapsto> Done (Some (artifactBaz c tank foo bar baz)))"
proof -
  note k = chain_keys [OF S]
  have p: "findAuthoredParent tank (keyOf (Type_Logical, baz)) ''Bar'' = Some (Type_Logical, bar)"
    unfolding k(3) by (rule chain_parent(2) [OF S]) simp
  let ?st1 = "markInProgress (Type_Logical, ''Baz'') st"
  show ?thesis
  proof (cases "status st (Type_Logical, ''Bar'') = None")
    case True
    with bf have f: "status st (Type_Logical, ''Foo'') = None
        \<or> status st (Type_Logical, ''Foo'') = Some (Done (Some (artifactFoo c tank foo)))"
      by simp
    have e: "exportStructDef c tank (Type_Logical, baz) st =
       afterParent c tank (Type_Logical, baz) ''Bar'' (Type_Logical, bar)
         (exportStructDef c tank (Type_Logical, bar) ?st1)"
      using z True p k(6) export_parentFirst [of st "(Type_Logical, baz)" "''Bar''" tank
          "(Type_Logical, bar)" c]
      by (simp add: k(2,3))
    have b1: "status ?st1 (Type_Logical, ''Bar'') = None"
      using True by (simp add: status_markInProgress)
    have f1: "status ?st1 (Type_Logical, ''Foo'') = None
        \<or> status ?st1 (Type_Logical, ''Foo'') = Some (Done (Some (artifactFoo c tank foo)))"
      using f by (simp add: status_markInProgress)
    note sb = step_bar [OF S b1 f1]
    have a: "afterParent c tank (Type_Logical, baz) ''Bar'' (Type_Logical, bar)
         (exportStructDef c tank (Type_Logical, bar) ?st1)
       = finishEntity c tank (Type_Logical, baz) (sdUrl (artifactBar c tank foo bar))
           (elements (artifactBar c tank foo bar)) (exportStructDef c tank (Type_Logical, bar) ?st1)"
      by (simp add: afterParent_def sb(2) k(2))
    have st: "status (exportStructDef c tank (Type_Logical, baz) st)
           = (status st)((Type_Logical, ''Foo'') \<mapsto> Done (Some (artifactFoo c tank foo)),
                         (Type_Logical, ''Bar'') \<mapsto> Done (Some (artifactBar c tank foo bar)),
                         (Type_Logical, ''Baz'') \<mapsto> Done (Some (artifactBaz c tank foo bar baz)))"
      unfolding e a
      by (simp add: status_finishEntity sb(2) status_markInProgress artifactBaz_def k(3)
          fun_upd_twist)
    have ex: "exported (exportStructDef c tank (Type_Logical, baz) st)
           = exported st @
               (if status st (Type_Logical, ''Foo'') = None
                then [artifactFoo c tank foo, artifactBar c tank foo bar,
                      artifactBaz c tank foo bar baz]
                else [artifactBar c tank foo bar, artifactBaz c tank foo bar baz])"
      unfolding e a
      by (simp add: status_finishEntity sb(1) status_markInProgress artifactBaz_def)
    from st ex True show ?thesis by simp
  next
    case False
    with bf have d: "status st (Type_Logical, ''Bar'') = Some (Done (Some (artifactBar c tank foo bar)))"
      and df: "status st (Type_Logical, ''Foo'') = Some (Done (Some (artifactFoo c tank foo)))"
      by simp_all
    have e: "exportStructDef c tank (Type_Logical, baz) st =
       finishEntity c tank (Type_Logical, baz) (sdUrl (artifactBar c tank foo bar))
         (elements (artifactBar c tank foo bar)) ?st1"
      using z d p k(6) export_parentExported [of st "(Type_Logical, baz)" "''Bar''" tank
          "(Type_Logical, bar)" "artifactBar c tank foo bar" c]
      by (simp add: k(2,3))
    have triv: "(status st)((Type_Logical, ''Foo'') \<mapsto> Done (Some (artifactFoo c tank foo)),
                            (Type_Logical, ''Bar'') \<mapsto> Done (Some (artifactBar c tank foo bar)))
       = status st"
      using d df by (simp add: fun_upd_idem)
    have st: "status (exportStructDef c tank (Type_Logical, baz) st)
           = (status st)((Type_Logical, ''Baz'') \<mapsto> Done (Some (artifactBaz c tank foo bar baz)))"
      unfolding e
      by (simp add: status_finishEntity status_markInProgress artifactBaz_def k(3))
    have ex: "exported (exportStructDef c tank (Type_Logical, baz) st)
           = exported st @ [artifactBaz c tank foo bar baz]"
      unfolding e
      by (simp add: status_finishEntity status_markInProgress artifactBaz_def)
    from st ex False triv show ?thesis by simp
  qed
qed

lemma chain_step:
  assumes S: "logicalChain tank foo bar baz"
    and cs: "chainState c tank foo bar baz n st" and n: "n \<le> 3"
  shows "chainState c tank foo bar baz (max n 1) (exportStructDef c tank (Type_Logical, foo) st)"
    and "chainState c tank foo bar baz (max n 2) (exportStructDef c tank (Type_Logical, bar) st)"
    and "chainState c tank foo bar baz 3 (exportStructDef c tank (Type_Logical, baz) st)"
proof -
  note k = chain_keys [OF S]
  from n consider "n = 0" | "n = 1" | "n = 2" | "n = 3" by arith
  then have "chainState c tank foo bar baz (max n 1) (exportStructDef c tank (Type_Logical, foo) st)
     \<and> chainState c tank foo bar baz (max n 2) (exportStructDef c tank (Type_Logical, bar) st)
     \<and> chainState c tank foo bar baz 3 (exportStructDef c tank (Type_Logical, baz) st)"
  proof cases
    case 1
    with cs have ex: "exported st = []" and sf: "status st (Type_Logical, ''Foo'') = None"
      and sb: "status st (Type_Logical, ''Bar'') = None"
      and sz: "status st (Type_Logical, ''Baz'') = None"
      by (simp_all add: chainState_def)
    have a: "chainState c tank foo bar baz 1 (exportStructDef c tank (Type_Logical, foo) st)"
      using step_foo [OF S sf, of c] ex sb sz by (simp add: chainState_def)
    have b: "chainState c tank foo bar baz 2 (exportStructDef c tank (Type_Logical, bar) st)"
      using step_bar [OF S sb, of c] ex sf sz by (simp add: chainState_def)
    have z: "chainState c tank foo bar baz 3 (exportStructDef c tank (Type_Logical, baz) st)"
      using step_baz [OF S sz, of c] ex sf sb by (simp add: chainState_def)
    have m: "max n 1 = 1" "max n 2 = 2" using 1 by simp_all
    from a b z show ?thesis unfolding m by blast
  next
    case 2
    with cs have ex: "exported st = [artifactFoo c tank foo]"
      and sf: "status st (Type_Logical, ''Foo'') = Some (Done (Some (artifactFoo c tank foo)))"
      and sb: "status st (Type_Logical, ''Bar'') = None"
      and sz: "status st (Type_Logical, ''Baz'') = None"
      by (simp_all add: chainState_def)
    have a: "exportStructDef c tank (Type_Logical, foo) st = st"
      using sf by (intro export_done) (simp add: k(1))
    have b: "chainState c tank foo bar baz 2 (exportStructDef c tank (Type_Logical, bar) st)"
      using step_bar [OF S sb, of c] ex sf sz by (simp add: chainState_def)
    have z: "chainState c tank foo bar baz 3 (exportStructDef c tank (Type_Logical, baz) st)"
      using step_baz [OF S sz, of c] ex sf sb by (simp add: chainState_def)
    have m: "max n 1 = 1" "max n 2 = 2" using 2 by simp_all
    from cs 2 have "chainState c tank foo bar baz 1 st" by simp
    with b z show ?thesis unfolding m a by blast
  next
    case 3
    with cs have ex: "exported st = [artifactFoo c tank foo, artifactBar c tank foo bar]"
      and sf: "status st (Type_Logical, ''Foo'') = Some (Done (Some (artifactFoo c tank foo)))"
      and sb: "status st (Type_Logical, ''Bar'') = Some (Done (Some (artifactBar c tank foo bar)))"
      and sz: "status st (Type_Logical, ''Baz'') = None"
      by (simp_all add: chainState_def)
    have a: "exportStructDef c tank (Type_Logical, foo) st = st"
      using sf by (intro export_done) (simp add: k(1))
    have b: "exportStructDef c tank (Type_Logical, bar) st = st"
      using sb by (intro export_done) (simp add: k(2))
    have z: "chainState c tank foo bar baz 3 (exportStructDef c tank (Type_Logical, baz) st)"
      using step_baz [OF S sz, of c] ex sf sb by (simp add: chainState_def)
    have m: "max n 1 = 2" "max n 2 = 2" using 3 by simp_all
    from cs 3 have "chainState c tank foo bar baz 2 st" by simp
    with z show ?thesis unfolding m a b by blast
  next
    case 4
    with cs have sf: "status st (Type_Logical, ''Foo'') = Some (Done (Some (artifactFoo c tank foo)))"
      and sb: "status st (Type_Logical, ''Bar'') = Some (Done (Some (artifactBar c tank foo bar)))"
      and sz: "status st (Type_Logical, ''Baz'') = Some (Done (Some (artifactBaz c tank foo bar baz)))"
      by (simp_all add: chainState_def)
    have a: "exportStructDef c tank (Type_Logical, foo) st = st"
      using sf by (intro export_done) (simp add: k(1))
    have b: "exportStructDef c tank (Type_Logical, bar) st = st"
      using sb by (intro export_done) (simp add: k(2))
    have z: "exportStructDef c tank (Type_Logical, baz) st = st"
      using sz by (intro export_done) (simp add: k(3))
    have m: "max n 1 = 3" "max n 2 = 3" using 4 by simp_all
    from cs 4 have "chainState c tank foo bar baz 3 st" by simp
    then show ?thesis unfolding m a b z by blast
  qed
  then show "chainState c tank foo bar baz (max n 1) (exportStructDef c tank (Type_Logical, foo) st)"
    and "chainState c tank foo bar baz (max n 2) (exportStructDef c tank (Type_Logical, bar) st)"
    and "chainState c tank foo bar baz 3 (exportStructDef c tank (Type_Logical, baz) st)"
    by simp_all
qed


lemma chain_fold:
  assumes S: "logicalChain tank foo bar baz"
  shows "set es \<subseteq> {(Type_Logical, foo), (Type_Logical, bar), (Type_Logical, baz)} \<Longrightarrow>
         chainState c tank foo bar baz n st \<Longrightarrow> n \<le> 3 \<Longrightarrow>
         \<exists>m\<le>3. n \<le> m \<and> ((Type_Logical, baz) \<in> set es \<longrightarrow> m = 3)
            \<and> chainState c tank foo bar baz m
                 (foldl (\<lambda>st e. exportStructDef c tank e st) st es)"
proof (induction es arbitrary: n st)
  case Nil
  then show ?case by auto
next
  case (Cons e es)
  from Cons.prems(1) have e: "e = (Type_Logical, foo) \<or> e = (Type_Logical, bar)
      \<or> e = (Type_Logical, baz)" and es: "set es \<subseteq> {(Type_Logical, foo),
      (Type_Logical, bar), (Type_Logical, baz)}" by auto
  note step = chain_step [OF S Cons.prems(2,3)]
  have "name foo \<noteq> name baz" "name bar \<noteq> name baz"
    using S by (simp_all add: logicalChain_def)
  then have ne: "foo \<noteq> baz" "bar \<noteq> baz" by blast+
  from e obtain n' where n': "n \<le> n'" "n' \<le> 3" "e = (Type_Logical, baz) \<longrightarrow> n' = 3"
    and cs': "chainState c tank foo bar baz n' (exportStructDef c tank e st)"
  proof (elim disjE)
    assume "e = (Type_Logical, foo)"
    with step(1) Cons.prems(3) show ?thesis
      using that [of "max n 1"] ne by simp
  next
    assume "e = (Type_Logical, bar)"
    with step(2) Cons.prems(3) show ?thesis
      using that [of "max n 2"] ne by simp
  next
    assume "e = (Type_Logical, baz)"
    with step(3) Cons.prems(3) show ?thesis
      using that [of 3] by simp
  qed
  from Cons.IH [OF es cs' n'(2)] obtain m where m: "m \<le> 3" "n' \<le> m"
    "(Type_Logical, baz) \<in> set es \<longrightarrow> m = 3"
    "chainState c tank foo bar baz m
       (foldl (\<lambda>st e. exportStructDef c tank e st) (exportStructDef c tank e st) es)"
    by blast
  have "n \<le> m" using n'(1) m(2) by simp
  moreover have "(Type_Logical, baz) \<in> set (e # es) \<longrightarrow> m = 3"
    using n'(3) m(1,2,3) by auto
  ultimately show ?case using m(1,4) by auto
qed

text \<open>C3. A tank that holds the three logical models \<open>Foo\<close> (no parent), \<open>Bar\<close> (parent
  \<open>Foo\<close>) and \<open>Baz\<close> (parent \<open>Bar\<close>) and nothing else, in whatever order and documents
  they are declared, exports the artifacts in the order \<open>Foo\<close>, \<open>Bar\<close>, \<open>Baz\<close>; the base
  definition of \<open>Bar\<close> is the canonical url of \<open>Foo\<close> and the base definition of
  \<open>Baz\<close> is the canonical url of \<open>Bar\<close>.\<close>

theorem logical_chain_export_order:
  assumes "getAllProfiles tank = []" and "getAllExtensions tank = []"
    and "getAllResources tank = []" and "getAllInstances tank = []"
    and "resolveAlias tank ''Foo'' = None" and "resolveAlias tank ''Bar'' = None"
    and "set (getAllLogicals tank) = {foo, bar, baz}"
    and "name foo = ''Foo'' \<and> id' foo = ''Foo'' \<and> parent foo = None"
    and "name bar = ''Bar'' \<and> id' bar = ''Bar'' \<and> parent bar = Some ''Foo''"
    and "name baz = ''Baz'' \<and> id' baz = ''Baz'' \<and> parent baz = Some ''Bar''"
  shows "map sdName (exported (export c tank)) = [''Foo'', ''Bar'', ''Baz'']
       \<and> map sdUrl (exported (export c tank))
           = [canonical (config tank) @ ''Foo'', canonical (config tank) @ ''Bar'',
              canonical (config tank) @ ''Baz'']
       \<and> baseDefinition (exported (export c tank) ! 1) = sdUrl (exported (export c tank) ! 0)
       \<and> baseDefinition (exported (export c tank) ! 2) = sdUrl (exported (export c tank) ! 1)"
proof -
  have S: "logicalChain tank foo bar baz"
    using assms by (simp add: logicalChain_def)
  have all: "getAllStructureDefinitions tank = map (Pair Type_Logical) (getAllLogicals tank)"
    using assms(1-3) by (simp add: getAllStructureDefinitions_def)
  have sub: "set (getAllStructureDefinitions tank)
      \<subseteq> {(Type_Logical, foo), (Type_Logical, bar), (Type_Logical, baz)}"
    and mem: "(Type_Logical, baz) \<in> set (getAllStructureDefinitions tank)"
    unfolding all using assms(7) by auto
  have init: "chainState c tank foo bar baz 0 initialState"
    by (simp add: chainState_def initialState_def)
  from chain_fold [OF S sub init] mem
  have "chainState c tank foo bar baz 3 (export c tank)"
    unfolding export_def by auto
  then have ex: "exported (export c tank)
      = [artifactFoo c tank foo, artifactBar c tank foo bar, artifactBaz c tank foo bar baz]"
    by (simp add: chainState_def)
  show ?thesis
    unfolding ex using assms(8-10)
    by (simp add: artifactFoo_def artifactBar_def artifactBaz_def buildArtifact_def
        getUrlFromFshDefinition_def)
qed


theorem logical_chain_export_order_witness:
  "getAllLogicals tank_chain
     = [logical ''Baz'' (Some ''Bar''), logical ''Foo'' None, logical ''Bar'' (Some ''Foo'')]
   \<and> map sdName (exported (export exampleCollaborators tank_chain)) = [''Foo'', ''Bar'', ''Baz'']
   \<and> baseDefinition (exported (export exampleCollaborators tank_chain) ! 1)
       = sdUrl (exported (export exampleCollaborators tank_chain) ! 0)
   \<and> baseDefinition (exported (export exampleCollaborators tank_chain) ! 2)
       = sdUrl (exported (export exampleCollaborators tank_chain) ! 1)"
proof -
  have l: "getAllLogicals tank_chain
     = [logical ''Baz'' (Some ''Bar''), logical ''Foo'' None, logical ''Bar'' (Some ''Foo'')]"
    by (simp add: tank_chain_def tank_logicals_def emptyDoc_def getAllLogicals_def flatMap_def
        logical_def)
  have e: "getAllProfiles tank_chain = []" "getAllExtensions tank_chain = []"
    "getAllResources tank_chain = []" "getAllInstances tank_chain = []"
    by (simp_all add: tank_chain_def tank_logicals_def emptyDoc_def getAll_defs)
  have a: "resolveAlias tank_chain ''Foo'' = None" "resolveAlias tank_chain ''Bar'' = None"
    by (simp_all add: tank_chain_def tank_logicals_def emptyDoc_def resolveAlias_def)
  have s: "set (getAllLogicals tank_chain)
     = {logical ''Foo'' None, logical ''Bar'' (Some ''Foo''), logical ''Baz'' (Some ''Bar'')}"
    unfolding l by auto
  have n: "name (logical ''Foo'' None) = ''Foo'' \<and> id' (logical ''Foo'' None) = ''Foo''
       \<and> parent (logical ''Foo'' None) = None"
    "name (logical ''Bar'' (Some ''Foo'')) = ''Bar'' \<and> id' (logical ''Bar'' (Some ''Foo'')) = ''Bar''
       \<and> parent (logical ''Bar'' (Some ''Foo'')) = Some ''Foo''"
    "name (logical ''Baz'' (Some ''Bar'')) = ''Baz'' \<and> id' (logical ''Baz'' (Some ''Bar'')) = ''Baz''
       \<and> parent (logical ''Baz'' (Some ''Bar'')) = Some ''Bar''"
    by (simp_all add: logical_def)
  from logical_chain_export_order [OF e a s n, of exampleCollaborators] l
  show ?thesis by blast
qed

subsection \<open>Failures stay with the failing entity\<close>
































end
